theory Spec2Isabelle
  imports Main "HOL-Library.AList"
begin

section \<open>JSON values and JavaScript objects\<close>

text \<open>
  The orchestrator of \<^verbatim>\<open>src/Pushwoosh.ts\<close> works on plain JavaScript values: the
  configuration passed to \<^verbatim>\<open>init\<close>, the parameters the driver reports and the contents of
  the key-value store are all JSON-like. An object is an association list in property
  order: JavaScript enumerates string-named properties in the order of their first
  insertion, and \<^verbatim>\<open>JSON.stringify\<close> follows that order. A property whose value is
  \<^verbatim>\<open>undefined\<close> is modelled as absent, and so is a value read from a missing property
  (\<open>None\<close>). Property names that are array indices, which JavaScript moves to the
  front, are not treated specially.
\<close>

datatype json =
    JNull
  | JBool bool
  | JNum int
  | JStr string
  | JArr "json list"
  | JObj "(string \<times> json) list"

type_synonym obj = "(string \<times> json) list"

text \<open>Reading \<^verbatim>\<open>o.k\<close> and assigning \<^verbatim>\<open>o.k = v\<close>: an existing property keeps its place,
  a new one goes to the end. \<^verbatim>\<open>delete o.k\<close> removes the property.\<close>

definition get_prop :: "obj \<Rightarrow> string \<Rightarrow> json option" where
  "get_prop ob k = map_of ob k"

definition set_prop :: "obj \<Rightarrow> string \<Rightarrow> json \<Rightarrow> obj" where
  "set_prop ob k v = AList.update k v ob"

definition delete_prop :: "obj \<Rightarrow> string \<Rightarrow> obj" where
  "delete_prop ob k = AList.delete k ob"

text \<open>The object spread \<^verbatim>\<open>{...a, ...b}\<close>: the properties of \<open>b\<close> are assigned to a copy
  of \<open>a\<close>, first to last.\<close>

definition spread :: "obj \<Rightarrow> obj \<Rightarrow> obj" where
  "spread a b = foldl (\<lambda>acc (k, v). set_prop acc k v) a b"

text \<open>Decimal numerals, as \<^verbatim>\<open>String(n)\<close> prints an integer.\<close>

definition digit_char :: "nat \<Rightarrow> char" where
  "digit_char d = char_of (48 + d)"

fun show_nat :: "nat \<Rightarrow> string" where
  "show_nat n = (if n < 10 then [digit_char n] else show_nat (n div 10) @ [digit_char (n mod 10)])"

declare show_nat.simps [simp del]

definition show_int :: "int \<Rightarrow> string" where
  "show_int i = (if i < 0 then CHR ''-'' # show_nat (nat (- i)) else show_nat (nat i))"

text \<open>The own enumerable properties that a spread or \<^verbatim>\<open>Object.keys\<close> sees in a value:
  those of an object, the indexed elements of an array, the indexed characters of a
  string, none for the other primitives and for \<^verbatim>\<open>undefined\<close>.\<close>

fun own_props :: "json option \<Rightarrow> obj" where
  "own_props (Some (JObj kvs)) = kvs"
| "own_props (Some (JArr xs)) = zip (map show_nat [0..<length xs]) xs"
| "own_props (Some (JStr s)) = zip (map show_nat [0..<length s]) (map (\<lambda>c. JStr [c]) s)"
| "own_props _ = []"

text \<open>Truthiness of a value, for \<^verbatim>\<open>!x\<close>, \<^verbatim>\<open>x && y\<close>, \<^verbatim>\<open>x || y\<close> and \<^verbatim>\<open>if (x)\<close>.\<close>

fun truthy :: "json option \<Rightarrow> bool" where
  "truthy None = False"
| "truthy (Some JNull) = False"
| "truthy (Some (JBool b)) = b"
| "truthy (Some (JNum n)) = (n \<noteq> 0)"
| "truthy (Some (JStr s)) = (s \<noteq> [])"
| "truthy (Some (JArr _)) = True"
| "truthy (Some (JObj _)) = True"

text \<open>Strict equality \<^verbatim>\<open>a === b\<close>. Primitives are compared by value. Objects and arrays are
  compared by reference; wherever the orchestrator compares two values, one comes out of
  the store or a collaborator and the other from the caller or a constant, so two
  objects are never the same reference there.\<close>

fun is_primitive :: "json \<Rightarrow> bool" where
  "is_primitive (JArr _) = False"
| "is_primitive (JObj _) = False"
| "is_primitive _ = True"

fun strict_eq :: "json option \<Rightarrow> json option \<Rightarrow> bool" where
  "strict_eq None None = True"
| "strict_eq (Some a) (Some b) = (is_primitive a \<and> a = b)"
| "strict_eq _ _ = False"

text \<open>\<^verbatim>\<open>JSON.stringify\<close>. A string is quoted, with the quote, the backslash and the control
  characters escaped; the properties of an object are printed in property order.\<close>

definition hex_char :: "nat \<Rightarrow> char" where
  "hex_char d = (if d < 10 then char_of (48 + d) else char_of (87 + d))"

definition escape_char :: "char \<Rightarrow> string" where
  "escape_char c =
     (if c = CHR 0x22 then [CHR 0x5C, CHR 0x22]
      else if c = CHR 0x5C then [CHR 0x5C, CHR 0x5C]
      else if c = CHR 0x08 then [CHR 0x5C, CHR ''b'']
      else if c = CHR 0x0C then [CHR 0x5C, CHR ''f'']
      else if c = CHR 0x0A then [CHR 0x5C, CHR ''n'']
      else if c = CHR 0x0D then [CHR 0x5C, CHR ''r'']
      else if c = CHR 0x09 then [CHR 0x5C, CHR ''t'']
      else if of_char c < (32::nat)
        then [CHR 0x5C, CHR ''u'', CHR ''0'', CHR ''0'',
              hex_char (of_char c div 16), hex_char (of_char c mod 16)]
      else [c])"

definition quote :: "string \<Rightarrow> string" where
  "quote s = CHR 0x22 # concat (map escape_char s) @ [CHR 0x22]"

fun join :: "string \<Rightarrow> string list \<Rightarrow> string" where
  "join sep [] = []"
| "join sep [x] = x"
| "join sep (x # y # ys) = x @ sep @ join sep (y # ys)"

fun stringify :: "json \<Rightarrow> string" where
  "stringify JNull = ''null''"
| "stringify (JBool b) = (if b then ''true'' else ''false'')"
| "stringify (JNum n) = show_int n"
| "stringify (JStr s) = quote s"
| "stringify (JArr xs) = ''['' @ join '','' (map stringify xs) @ '']''"
| "stringify (JObj kvs) =
     ''{'' @ join '','' (map (\<lambda>(k, v). quote k @ '':'' @ stringify v) kvs) @ ''}''"



section \<open>Errors, effects and the state of the orchestrator\<close>

datatype error = Error string | TypeError string

text \<open>The keys of the key-value store (\<^verbatim>\<open>keyValue\<close> of \<^verbatim>\<open>./storage\<close>) that the orchestrator
  uses. The constants themselves live in \<^verbatim>\<open>./constants\<close>; they are distinct keys.\<close>

datatype kv_key =
    KEY_API_PARAMS
  | KEY_INIT_PARAMS
  | KEY_SDK_VERSION
  | KEY_LAST_OPEN_MESSAGE
  | KEY_LAST_SENT_APP_OPEN
  | KEY_SAFARI_PREVIOUS_PERMISSION
  | KEY_COMMUNICATION_ENABLED
  | KEY_DEVICE_DATA_REMOVED
  | KEY_DELAYED_EVENT

datatype driver_kind = WorkerDriver | SafariDriver

text \<open>Calls to the collaborators: \<^verbatim>\<open>getPushwooshUrl\<close>, the methods of the driver (the
  notification transport) and the methods of the API facade (the backend client).\<close>

datatype call =
    GetPushwooshUrl "json option" "json option"
  | InitWorker
  | GetPermission
  | IsSubscribed
  | AskSubscribe bool
  | DriverUnsubscribe
  | GetAPIParams
  | IsNeedUnsubscribe
  | RegisterDevice
  | UnregisterDevice
  | SetTags obj
  | RegisterUser
  | ApplicationOpen
  | PostEvent string obj
  | GetTags
  | PushStat string

text \<open>Everything the orchestrator does to the outside is recorded, in order, in a trace.\<close>

datatype action =
    Call call
  | Emit string "json option"
  | EmitUntyped "json option" "json option"
  | Log string
  | KVSet kv_key json
  | RemoveRegistrationStatus
  | NewDriver driver_kind
  | DispatchEvent string

text \<open>Modelled from the spec: the values of the constants of \<^verbatim>\<open>./constants\<close>, which is not
  among the sources. The permission states are \<open>denied\<close>, \<open>prompt\<close> and \<open>granted\<close>, the
  registration status is \<open>registered\<close> or \<open>unregistered\<close>, and the events carry the
  names the spec gives them.\<close>

definition PERMISSION_DENIED :: string where "PERMISSION_DENIED = ''denied''"
definition PERMISSION_GRANTED :: string where "PERMISSION_GRANTED = ''granted''"
definition PERMISSION_PROMPT :: string where "PERMISSION_PROMPT = ''prompt''"

definition DEVICE_REGISTRATION_STATUS_REGISTERED :: string where
  "DEVICE_REGISTRATION_STATUS_REGISTERED = ''registered''"
definition DEVICE_REGISTRATION_STATUS_UNREGISTERED :: string where
  "DEVICE_REGISTRATION_STATUS_UNREGISTERED = ''unregistered''"

definition EVENT_GDPR_CONSENT :: string where "EVENT_GDPR_CONSENT = ''GDPRConsent''"
definition EVENT_GDPR_DELETE :: string where "EVENT_GDPR_DELETE = ''GDPRDelete''"

definition EVENT_ON_READY :: string where "EVENT_ON_READY = ''ready''"
definition EVENT_ON_SUBSCRIBE :: string where "EVENT_ON_SUBSCRIBE = ''subscribe''"
definition EVENT_ON_UNSUBSCRIBE :: string where "EVENT_ON_UNSUBSCRIBE = ''unsubscribe''"
definition EVENT_ON_REGISTER :: string where "EVENT_ON_REGISTER = ''register''"
definition EVENT_ON_PERMISSION_PROMPT :: string where
  "EVENT_ON_PERMISSION_PROMPT = ''permissionPrompt''"
definition EVENT_ON_PERMISSION_DENIED :: string where
  "EVENT_ON_PERMISSION_DENIED = ''permissionDenied''"
definition EVENT_ON_PERMISSION_GRANTED :: string where
  "EVENT_ON_PERMISSION_GRANTED = ''permissionGranted''"
definition EVENT_ON_CHANGE_COMMUNICATION_ENABLED :: string where
  "EVENT_ON_CHANGE_COMMUNICATION_ENABLED = ''changeCommunicationEnabled''"

text \<open>The world outside the class: the facts the helper functions of \<^verbatim>\<open>./functions\<close>
  report about the browser and the build, the constants without a value in the spec,
  and the behaviour of the collaborators. A collaborator answers a call with a value or
  a failure (\<open>respond\<close>), and may depend on everything that happened before, the trace.
  The driver and the API facade also keep the device-registration status in
  \<^verbatim>\<open>localStorage\<close>: \<open>status_after\<close> is what a call leaves there.\<close>

record world =
  getVersion :: string
  getBrowserType :: int
  getBrowserVersion :: string
  navigator_language :: string
  canUseServiceWorkers :: bool
  serviceWorker_in_navigator :: bool
  DEFAULT_USER_ID :: string
  DEFAULT_SERVICE_WORKER_URL :: string
  PERIOD_SEND_APP_OPEN :: int
  date_now :: "action list \<Rightarrow> int"
  location_hash_stat :: "action list \<Rightarrow> string option"
  driver_has_initWorker :: bool
  driver_has_isNeedUnsubscribe :: bool
  respond :: "action list \<Rightarrow> call \<Rightarrow> error + json"
  status_after :: "action list \<Rightarrow> call \<Rightarrow> string option \<Rightarrow> string option"

text \<open>The API facade, \<^verbatim>\<open>new API(func, apiParams, lastOpenMessage)\<close>.\<close>

datatype api_facade = API (apiParams: obj) (lastOpenMessage: json)

text \<open>The fields of the class, the two stores (the key-value store and the two
  \<^verbatim>\<open>localStorage\<close> items the class reads) and the trace. \<open>onReadyStatHandlers\<close> counts the
  handlers that \<^verbatim>\<open>init\<close> registers on the ready event for the Safari driver.\<close>

record pw_state =
  params :: "obj option"
  initParams :: "obj option"
  isNeedResubscribe :: bool
  isNeedRegisterUser :: bool
  isNeedRegisterDevice :: bool
  isNeedSetTags :: bool
  api :: "api_facade option"
  driver :: "driver_kind option"
  isSafari :: bool
  permissionOnInit :: "json option"
  ready :: bool
  subscribeWidgetConfig :: "json option"
  onReadyStatHandlers :: nat
  serviceWorker_onmessage :: bool
  loggerLevel :: "json option"
  kv :: "kv_key \<Rightarrow> json option"
  registrationStatus :: "string option"
  manualLoggerLevel :: "string option"
  trace :: "action list"

section \<open>Asynchronous functions as state passing with errors\<close>

text \<open>An \<^verbatim>\<open>async\<close> function takes the state and returns the new state together with its
  value, or with the error it rejects with (\<open>Inl\<close>). The state changes made before a
  \<^verbatim>\<open>throw\<close> stay.\<close>

type_synonym 'a pw = "pw_state \<Rightarrow> (error + 'a) \<times> pw_state"

definition ret :: "'a \<Rightarrow> 'a pw" where
  "ret v s = (Inr v, s)"

definition throw :: "error \<Rightarrow> 'a pw" where
  "throw e s = (Inl e, s)"

definition bind :: "'a pw \<Rightarrow> ('a \<Rightarrow> 'b pw) \<Rightarrow> 'b pw" where
  "bind m k s = (case m s of (Inl e, s') \<Rightarrow> (Inl e, s') | (Inr v, s') \<Rightarrow> k v s')"

definition try_catch :: "'a pw \<Rightarrow> (error \<Rightarrow> 'a pw) \<Rightarrow> 'a pw" where
  "try_catch m h s = (case m s of (Inl e, s') \<Rightarrow> h e s' | (Inr v, s') \<Rightarrow> (Inr v, s'))"

definition gets :: "(pw_state \<Rightarrow> 'a) \<Rightarrow> 'a pw" where
  "gets f s = (Inr (f s), s)"

definition modify :: "(pw_state \<Rightarrow> pw_state) \<Rightarrow> unit pw" where
  "modify f s = (Inr (), f s)"

definition record_action :: "action \<Rightarrow> unit pw" where
  "record_action a = modify (\<lambda>s. s\<lparr>trace := trace s @ [a]\<rparr>)"

text \<open>\<^verbatim>\<open>Logger.error\<close>, \<^verbatim>\<open>Logger.info\<close> and \<^verbatim>\<open>Logger.write\<close> leave their message in the
  trace.\<close>

definition logger :: "string \<Rightarrow> unit pw" where
  "logger msg = record_action (Log msg)"

text \<open>Calling a collaborator starts the call and yields its promise, here the outcome the
  promise settles to; \<^verbatim>\<open>await\<close> on the promise returns the value or throws the failure.\<close>

definition start :: "world \<Rightarrow> call \<Rightarrow> (error + json) pw" where
  "start w c s =
     (Inr (respond w (trace s) c),
      s\<lparr>registrationStatus := status_after w (trace s) c (registrationStatus s),
        trace := trace s @ [Call c]\<rparr>)"

definition settle :: "(error + 'a) \<Rightarrow> 'a pw" where
  "settle p = (case p of Inl e \<Rightarrow> throw e | Inr v \<Rightarrow> ret v)"

definition invoke :: "world \<Rightarrow> call \<Rightarrow> json pw" where
  "invoke w c = bind (start w c) settle"

text \<open>A method call on \<^verbatim>\<open>this.driver\<close> or \<^verbatim>\<open>this.api\<close> is a \<^verbatim>\<open>TypeError\<close> while the field is
  still undefined.\<close>

definition on_driver :: "'a pw \<Rightarrow> 'a pw" where
  "on_driver m =
     bind (gets driver) (\<lambda>d.
       case d of None \<Rightarrow> throw (TypeError ''this.driver is undefined'') | Some _ \<Rightarrow> m)"

definition on_api :: "'a pw \<Rightarrow> 'a pw" where
  "on_api m =
     bind (gets api) (\<lambda>a.
       case a of None \<Rightarrow> throw (TypeError ''this.api is undefined'') | Some _ \<Rightarrow> m)"

text \<open>Property access \<^verbatim>\<open>x.k\<close> on a value: a \<^verbatim>\<open>TypeError\<close> on \<^verbatim>\<open>undefined\<close> and \<^verbatim>\<open>null\<close>, the
  property of an object, \<^verbatim>\<open>undefined\<close> on the other values.\<close>

definition member :: "json option \<Rightarrow> string \<Rightarrow> (json option) pw" where
  "member x k =
     (case x of
        None \<Rightarrow> throw (TypeError ''cannot read a property of undefined'')
      | Some JNull \<Rightarrow> throw (TypeError ''cannot read a property of null'')
      | Some (JObj kvs) \<Rightarrow> ret (get_prop kvs k)
      | Some _ \<Rightarrow> ret None)"

text \<open>Writing a property whose value may be \<^verbatim>\<open>undefined\<close>.\<close>

definition assign :: "obj \<Rightarrow> string \<Rightarrow> json option \<Rightarrow> obj" where
  "assign ob k v = (case v of None \<Rightarrow> delete_prop ob k | Some x \<Rightarrow> set_prop ob k x)"

text \<open>\<^verbatim>\<open>x || d\<close> with a default \<open>d\<close>.\<close>

definition or_else :: "json option \<Rightarrow> json \<Rightarrow> json" where
  "or_else x d = (case x of None \<Rightarrow> d | Some v \<Rightarrow> if truthy (Some v) then v else d)"

text \<open>\<^verbatim>\<open>Promise.all\<close> takes a list of values. An element that is a promise is waited for,
  and the first rejection rejects the whole; an element that is not a promise, such as
  an array, counts as already resolved, whatever it contains.\<close>

datatype js_value = Promise "error + json" | Array "js_value list"

fun first_rejection :: "js_value list \<Rightarrow> error option" where
  "first_rejection [] = None"
| "first_rejection (Promise (Inl e) # xs) = Some e"
| "first_rejection (x # xs) = first_rejection xs"

definition Promise_all :: "js_value list \<Rightarrow> unit pw" where
  "Promise_all xs = (case first_rejection xs of Some e \<Rightarrow> throw e | None \<Rightarrow> ret ())"

section \<open>The key-value store\<close>

text \<open>The store reads and writes at once and does not fail.\<close>

definition keyValue_get :: "kv_key \<Rightarrow> (json option) pw" where
  "keyValue_get k = gets (\<lambda>s. kv s k)"

definition keyValue_getAll :: "(kv_key \<Rightarrow> json option) pw" where
  "keyValue_getAll = gets kv"

definition keyValue_set :: "kv_key \<Rightarrow> json \<Rightarrow> unit pw" where
  "keyValue_set k v = modify (\<lambda>s. s\<lparr>kv := (kv s)(k \<mapsto> v), trace := trace s @ [KVSet k v]\<rparr>)"

text \<open>Modelled from the spec: \<^verbatim>\<open>keyValue.extend\<close> of \<^verbatim>\<open>./storage\<close>, which is not among the
  sources. The spec gives it shallow-merge semantics: the new value of the key is the
  old one with the properties of the partial value assigned to it.\<close>

definition keyValue_extend :: "kv_key \<Rightarrow> json \<Rightarrow> unit pw" where
  "keyValue_extend k v =
     bind (keyValue_get k) (\<lambda>oldValues.
       keyValue_set k (JObj (spread (spread [] (own_props oldValues)) (own_props (Some v)))))"


section \<open>The class Pushwoosh\<close>

subsection \<open>Status and parameter queries\<close>

definition isDeviceRegistered :: "pw_state \<Rightarrow> bool" where
  "isDeviceRegistered s = (registrationStatus s = Some DEVICE_REGISTRATION_STATUS_REGISTERED)"

definition isDeviceUnregistered :: "pw_state \<Rightarrow> bool" where
  "isDeviceUnregistered s = (registrationStatus s = Some DEVICE_REGISTRATION_STATUS_UNREGISTERED)"

definition isCommunicationEnabled :: "bool pw" where
  "isCommunicationEnabled =
     bind (keyValue_get KEY_COMMUNICATION_ENABLED) (\<lambda>isEnabled.
       ret (\<not> strict_eq isEnabled (Some (JNum 0))))"

definition getParams :: "obj pw" where
  "getParams =
     bind keyValue_getAll (\<lambda>all.
       ret (spread (spread [] (own_props (all KEY_API_PARAMS))) (own_props (all KEY_INIT_PARAMS))))"

subsection \<open>Events\<close>

text \<open>\<^verbatim>\<open>this._ee.emit\<close> runs the handlers of the event. The handlers of the host page are
  outside the class. The one handler the class itself registers (in \<^verbatim>\<open>init\<close>, for the
  Safari driver, on the ready event) sends the statistics of a push whose hash is in the
  location; its promise is not waited for.\<close>

definition stat_handler :: "world \<Rightarrow> unit pw" where
  "stat_handler w =
     bind (gets trace) (\<lambda>t.
       case location_hash_stat w t of
         None \<Rightarrow> ret ()
       | Some h \<Rightarrow> bind (on_api (start w (PushStat h))) (\<lambda>_. ret ()))"

fun run_stat_handlers :: "world \<Rightarrow> nat \<Rightarrow> unit pw" where
  "run_stat_handlers w 0 = ret ()"
| "run_stat_handlers w (Suc n) = bind (stat_handler w) (\<lambda>_. run_stat_handlers w n)"

definition emit :: "world \<Rightarrow> string \<Rightarrow> json option \<Rightarrow> unit pw" where
  "emit w name payload =
     bind (record_action (Emit name payload)) (\<lambda>_.
       if name = EVENT_ON_READY
       then bind (gets onReadyStatHandlers) (run_stat_handlers w)
       else ret ())"

subsection \<open>initApi\<close>

definition initApi :: "world \<Rightarrow> unit pw" where
  "initApi w =
     bind (gets params) (\<lambda>params.
     bind (on_driver (invoke w GetAPIParams)) (\<lambda>driverApiParams.
     bind (keyValue_get KEY_LAST_OPEN_MESSAGE) (\<lambda>lom.
     bind (keyValue_get KEY_API_PARAMS) (\<lambda>sap.
     let lastOpenMessage = or_else lom (JObj []);
         savedApiParams = or_else sap (JObj [])
     in
     bind (member (map_option JObj params) ''deviceType'') (\<lambda>deviceType.
     bind (member (map_option JObj params) ''tags'') (\<lambda>tags.
     bind (member tags ''Device Model'') (\<lambda>deviceModel.
     bind (member (map_option JObj params) ''applicationCode'') (\<lambda>applicationCode.
     bind (member tags ''Language'') (\<lambda>language.
     bind (member (map_option JObj params) ''pushwooshApiUrl'') (\<lambda>pushwooshApiUrl.
     bind (member (map_option JObj params) ''userId'') (\<lambda>userId.
     let apiParams0 =
           assign (assign (assign (assign (assign
             (spread [] (own_props (Some driverApiParams)))
             ''deviceType'' deviceType)
             ''deviceModel'' deviceModel)
             ''applicationCode'' applicationCode)
             ''language'' language)
             ''pushwooshApiUrl'' pushwooshApiUrl;
         apiParams = (if truthy userId then assign apiParams0 ''userId'' userId else apiParams0)
     in
     bind (modify (\<lambda>s. s\<lparr>isNeedRegisterDevice :=
              (stringify driverApiParams \<noteq> stringify savedApiParams)\<rparr>)) (\<lambda>_.
     bind (keyValue_extend KEY_API_PARAMS driverApiParams) (\<lambda>_.
     bind (keyValue_extend KEY_INIT_PARAMS (JObj (case params of Some p \<Rightarrow> p | None \<Rightarrow> []))) (\<lambda>_.
     modify (\<lambda>s. s\<lparr>api := Some (API apiParams lastOpenMessage)\<rparr>)))))))))))))))"

subsection \<open>callApplicationOpen and needForcedOpen\<close>

text \<open>Line 625, \<^verbatim>\<open>isNaN(val) ? 0 : Number(val)\<close>, on what the store holds for the time of the last
  session-open call. Both \<^verbatim>\<open>isNaN\<close> and \<^verbatim>\<open>Number\<close> convert the value to a number first. The
  numbers of the model are exact: an integer, a decimal fraction \<open>m \<times> 10\<^sup>e\<close> that a string
  may denote, the two infinities and \<^verbatim>\<open>NaN\<close>; the rounding to a double is left out.\<close>

datatype number = NaN | Infinity bool | Decimal int int

text \<open>\<open>Infinity negative\<close> is \<^verbatim>\<open>-Infinity\<close> when \<open>negative\<close> holds. \<open>Decimal m e\<close> is
  \<open>m \<times> 10\<^sup>e\<close>.\<close>

fun negate :: "number \<Rightarrow> number" where
  "negate NaN = NaN"
| "negate (Infinity negative) = Infinity (\<not> negative)"
| "negate (Decimal m e) = Decimal (- m) e"

text \<open>The conversion of a value to a string, which the conversion of an array to a number
  goes through. An array joins its elements with commas, \<^verbatim>\<open>null\<close> printing as the empty
  string. An object prints as \<^verbatim>\<open>[object Object]\<close> through the method \<^verbatim>\<open>toString\<close> it inherits;
  when it has an own property of that name, whose value is never a function here, no
  method is left to call and the conversion is a \<^verbatim>\<open>TypeError\<close> (\<open>None\<close>).\<close>

fun to_string :: "json \<Rightarrow> string option" where
  "to_string JNull = Some ''null''"
| "to_string (JBool b) = Some (if b then ''true'' else ''false'')"
| "to_string (JNum n) = Some (show_int n)"
| "to_string (JStr s) = Some s"
| "to_string (JArr xs) =
     map_option (join '','')
       (those (map (\<lambda>x. if x = JNull then Some [] else to_string x) xs))"
| "to_string (JObj kvs) =
     (if ''toString'' \<in> fst ` set kvs then None else Some ''[object Object]'')"

text \<open>The conversion of a string to a number: white space around the numeral is dropped,
  the empty string is 0, and the numeral is either an unsigned integer in base 16, 8 or 2
  after its prefix, or a decimal numeral with an optional sign, fraction and exponent, or
  \<^verbatim>\<open>Infinity\<close> with an optional sign. Everything else is \<^verbatim>\<open>NaN\<close>.\<close>

definition is_space :: "char \<Rightarrow> bool" where
  "is_space c = ((of_char c :: nat) \<in> {9, 10, 11, 12, 13, 32, 160})"

definition trim :: "string \<Rightarrow> string" where
  "trim s = rev (dropWhile is_space (rev (dropWhile is_space s)))"

definition digit_of :: "char \<Rightarrow> nat option" where
  "digit_of c =
     (let n = (of_char c :: nat) in
      if 48 \<le> n \<and> n \<le> 57 then Some (n - 48)
      else if 97 \<le> n \<and> n \<le> 102 then Some (n - 87)
      else if 65 \<le> n \<and> n \<le> 70 then Some (n - 55)
      else None)"

definition is_digit :: "nat \<Rightarrow> char \<Rightarrow> bool" where
  "is_digit radix c = (case digit_of c of None \<Rightarrow> False | Some d \<Rightarrow> d < radix)"

definition is_digits :: "nat \<Rightarrow> string \<Rightarrow> bool" where
  "is_digits radix s = (s \<noteq> [] \<and> list_all (is_digit radix) s)"

definition digits_value :: "nat \<Rightarrow> string \<Rightarrow> int" where
  "digits_value radix s =
     foldl (\<lambda>acc c. int radix * acc + int (case digit_of c of None \<Rightarrow> 0 | Some d \<Rightarrow> d)) 0 s"

definition radix_of_prefix :: "string \<Rightarrow> nat option" where
  "radix_of_prefix p =
     (if p = ''0x'' \<or> p = ''0X'' then Some 16
      else if p = ''0o'' \<or> p = ''0O'' then Some 8
      else if p = ''0b'' \<or> p = ''0B'' then Some 2
      else None)"

definition exponent_part :: "string \<Rightarrow> int option" where
  "exponent_part s =
     (case s of
        [] \<Rightarrow> Some 0
      | c # r \<Rightarrow>
          if c \<noteq> CHR ''e'' \<and> c \<noteq> CHR ''E'' then None
          else if r \<noteq> [] \<and> hd r = CHR ''+''
            then (if is_digits 10 (tl r) then Some (digits_value 10 (tl r)) else None)
          else if r \<noteq> [] \<and> hd r = CHR ''-''
            then (if is_digits 10 (tl r) then Some (- digits_value 10 (tl r)) else None)
          else if is_digits 10 r then Some (digits_value 10 r) else None)"

definition unsigned_decimal :: "string \<Rightarrow> number" where
  "unsigned_decimal s =
     (if s = ''Infinity'' then Infinity False
      else
        let whole = takeWhile (is_digit 10) s;
            r = dropWhile (is_digit 10) s;
            dot = (r \<noteq> [] \<and> hd r = CHR ''.'');
            fraction = (if dot then takeWhile (is_digit 10) (tl r) else []);
            r' = (if dot then dropWhile (is_digit 10) (tl r) else r)
        in if whole = [] \<and> fraction = [] then NaN
           else case exponent_part r' of
                  None \<Rightarrow> NaN
                | Some e \<Rightarrow> Decimal (digits_value 10 (whole @ fraction))
                                    (e - int (length fraction)))"

definition string_to_number :: "string \<Rightarrow> number" where
  "string_to_number s =
     (let t = trim s in
      if t = [] then Decimal 0 0
      else case radix_of_prefix (take 2 t) of
             Some radix \<Rightarrow>
               if is_digits radix (drop 2 t) then Decimal (digits_value radix (drop 2 t)) 0
               else NaN
           | None \<Rightarrow>
               if hd t = CHR ''+'' then unsigned_decimal (tl t)
               else if hd t = CHR ''-'' then negate (unsigned_decimal (tl t))
               else unsigned_decimal t)"

text \<open>The conversion of a value to a number; \<open>None\<close> is the \<^verbatim>\<open>TypeError\<close> of an object that
  cannot be converted.\<close>

fun to_number :: "json option \<Rightarrow> number option" where
  "to_number None = Some NaN"
| "to_number (Some JNull) = Some (Decimal 0 0)"
| "to_number (Some (JBool b)) = Some (Decimal (if b then 1 else 0) 0)"
| "to_number (Some (JNum n)) = Some (Decimal n 0)"
| "to_number (Some (JStr s)) = Some (string_to_number s)"
| "to_number (Some v) = map_option string_to_number (to_string v)"

definition number_or_zero :: "json option \<Rightarrow> number pw" where
  "number_or_zero val =
     (case to_number val of
        None \<Rightarrow> throw (TypeError ''cannot convert object to primitive value'')
      | Some NaN \<Rightarrow> ret (Decimal 0 0)
      | Some n \<Rightarrow> ret n)"

text \<open>\<^verbatim>\<open>(curTime - lastSentTime) > PERIOD_SEND_APP_OPEN\<close> for integers \<^verbatim>\<open>curTime\<close> and
  \<^verbatim>\<open>PERIOD_SEND_APP_OPEN\<close>.\<close>

fun elapsed_exceeds :: "int \<Rightarrow> number \<Rightarrow> int \<Rightarrow> bool" where
  "elapsed_exceeds curTime NaN period = False"
| "elapsed_exceeds curTime (Infinity negative) period = negative"
| "elapsed_exceeds curTime (Decimal m e) period =
     (if 0 \<le> e then curTime - m * 10 ^ nat e > period
      else (curTime - period) * 10 ^ nat (- e) > m)"

definition sendApplicationOpen :: "world \<Rightarrow> bool \<Rightarrow> int \<Rightarrow> number \<Rightarrow> unit pw" where
  "sendApplicationOpen w force curTime lastSentTime =
     (if force \<or> elapsed_exceeds curTime lastSentTime (PERIOD_SEND_APP_OPEN w)
      then
        bind (gets trace) (\<lambda>t.
        bind (keyValue_set KEY_LAST_SENT_APP_OPEN
                (JNum (if curTime \<noteq> 0 then curTime else date_now w t))) (\<lambda>_.
        bind (on_api (start w ApplicationOpen)) (\<lambda>p.
        Promise_all [Promise (Inr JNull), Promise p])))
      else ret ())"

definition callApplicationOpen :: "world \<Rightarrow> bool \<Rightarrow> unit pw" where
  "callApplicationOpen w force =
     bind (on_driver (invoke w GetAPIParams)) (\<lambda>apiParams.
     bind (gets trace) (\<lambda>t.
     let curTime = date_now w t in
     bind (keyValue_get KEY_LAST_SENT_APP_OPEN) (\<lambda>val.
     bind (number_or_zero val) (\<lambda>lastSentTime.
     bind (gets isSafari) (\<lambda>safari.
     if safari
     then bind (member (Some apiParams) ''hwid'') (\<lambda>hwid.
            if \<not> truthy hwid then ret ()
            else sendApplicationOpen w force curTime lastSentTime)
     else sendApplicationOpen w force curTime lastSentTime)))))"

definition compare_permission :: "json option \<Rightarrow> json option \<Rightarrow> bool" where
  "compare_permission prev cur =
     (\<not> strict_eq prev (Some (JStr PERMISSION_GRANTED)) \<and>
      strict_eq cur (Some (JStr PERMISSION_GRANTED)))"

definition needForcedOpen :: "world \<Rightarrow> bool pw" where
  "needForcedOpen w =
     bind (gets isSafari) (\<lambda>safari.
     if \<not> safari then ret False
     else
       bind (keyValue_get KEY_SAFARI_PREVIOUS_PERMISSION) (\<lambda>previousPermission.
       bind (on_driver (invoke w GetPermission)) (\<lambda>currentPermission.
       bind (keyValue_set KEY_SAFARI_PREVIOUS_PERMISSION currentPermission) (\<lambda>_.
       bind (gets permissionOnInit) (\<lambda>onInit.
       ret (compare_permission onInit (Some currentPermission) \<or>
            compare_permission previousPermission (Some currentPermission)))))))"

subsection \<open>installDevice\<close>

text \<open>The calls are started one after the other and their promises collected in
  \<^verbatim>\<open>installationMethods\<close>. Line 542 then waits for \<^verbatim>\<open>Promise.all([installationMethods])\<close>: a
  list of one element, which is the array of the promises.\<close>

definition installDevice :: "world \<Rightarrow> bool \<Rightarrow> unit pw" where
  "installDevice w forceRequests =
     bind (gets api) (\<lambda>a.
     if a = None then throw (Error ''API is not inited'')
     else
     bind isCommunicationEnabled (\<lambda>enabled.
     if \<not> enabled then ret ()
     else
     bind keyValue_getAll (\<lambda>all.
     let savedSDKVersion = all KEY_SDK_VERSION;
         savedInitParams = all KEY_INIT_PARAMS;
         isNewVersion = (\<not> strict_eq (Some (JStr (getVersion w))) savedSDKVersion);
         forceInstallFlag = (forceRequests \<or> isNewVersion)
     in
     bind (if isNewVersion
           then bind (keyValue_set KEY_SDK_VERSION (JStr (getVersion w))) (\<lambda>_.
                  ret [Promise (Inr JNull)])
           else ret []) (\<lambda>methods1.
     bind (gets isNeedRegisterDevice) (\<lambda>needRegisterDevice.
     bind (if needRegisterDevice \<or> forceInstallFlag
           then bind (on_api (start w RegisterDevice)) (\<lambda>p. ret (methods1 @ [Promise p]))
           else ret methods1) (\<lambda>methods2.
     bind (gets isNeedSetTags) (\<lambda>needSetTags.
     bind (if needSetTags \<or> forceInstallFlag
           then bind (member savedInitParams ''tags'') (\<lambda>tags.
                bind (on_api (start w (SetTags (spread [] (own_props tags))))) (\<lambda>p.
                  ret (methods2 @ [Promise p])))
           else ret methods2) (\<lambda>methods3.
     bind (gets isNeedRegisterUser) (\<lambda>needRegisterUser.
     bind (if needRegisterUser \<or> forceInstallFlag
           then bind (on_api (start w RegisterUser)) (\<lambda>p. ret (methods3 @ [Promise p]))
           else ret methods3) (\<lambda>installationMethods.
     bind (Promise_all [Array installationMethods]) (\<lambda>_.
     bind (gets isNeedRegisterDevice) (\<lambda>needRegisterDevice'.
     if needRegisterDevice' \<or> forceInstallFlag
     then emit w EVENT_ON_REGISTER None
     else ret ()))))))))))))"

subsection \<open>unsubscribe and subscribe\<close>

definition unsubscribe :: "world \<Rightarrow> bool \<Rightarrow> unit pw" where
  "unsubscribe w notify =
     try_catch
       (bind (on_driver (invoke w DriverUnsubscribe)) (\<lambda>_.
        bind (on_api (invoke w UnregisterDevice)) (\<lambda>_.
        if notify then emit w EVENT_ON_UNSUBSCRIBE None else ret ())))
       (\<lambda>e. logger ''Error occurred during the unsubscribe'')"

definition onSubscribeEmitter :: "world \<Rightarrow> unit pw" where
  "onSubscribeEmitter w =
     bind (on_driver (invoke w IsSubscribed)) (\<lambda>subscribed.
     if truthy (Some subscribed) then emit w EVENT_ON_SUBSCRIBE None else ret ())"

definition registerDuringSubscribe :: "world \<Rightarrow> unit pw" where
  "registerDuringSubscribe w =
     bind (on_driver (invoke w IsSubscribed)) (\<lambda>subscribed.
     bind (gets isSafari) (\<lambda>safari.
     bind (if safari
           then bind (needForcedOpen w) (\<lambda>force. callApplicationOpen w force)
           else ret ()) (\<lambda>_.
     installDevice w (truthy (Some subscribed)))))"

definition subscribe :: "world \<Rightarrow> unit pw" where
  "subscribe w =
     bind isCommunicationEnabled (\<lambda>enabled.
     if \<not> enabled then logger ''Communication is disabled''
     else
       try_catch
         (bind (on_driver (invoke w IsSubscribed)) (\<lambda>subscribed.
          bind (gets isDeviceRegistered) (\<lambda>deviceRegistered.
          bind (on_driver (invoke w (AskSubscribe deviceRegistered))) (\<lambda>_.
          bind (if \<not> deviceRegistered then registerDuringSubscribe w else ret ()) (\<lambda>_.
          if \<not> truthy (Some subscribed) then onSubscribeEmitter w else ret ())))))
         (\<lambda>e. logger ''subscribe fail''))"

subsection \<open>removeAllDeviceData\<close>

text \<open>\<^verbatim>\<open>Object.keys\<close> throws on \<^verbatim>\<open>undefined\<close> and \<^verbatim>\<open>null\<close>.\<close>

definition object_keys :: "json option \<Rightarrow> (string list) pw" where
  "object_keys x =
     (case x of
        None \<Rightarrow> throw (TypeError ''cannot convert undefined to object'')
      | Some JNull \<Rightarrow> throw (TypeError ''cannot convert null to object'')
      | Some v \<Rightarrow> ret (map fst (own_props (Some v))))"

text \<open>Line 586, \<^verbatim>\<open>acc[tagName] = null\<close>, on an accumulator that starts as \<^verbatim>\<open>{}\<close>. This is
  an ordinary assignment, so it looks the name up along the prototype chain first. For the
  name \<^verbatim>\<open>__proto__\<close> it finds the accessor of \<^verbatim>\<open>Object.prototype\<close>, whose setter replaces the
  prototype of the accumulator and adds no property. Every other name becomes an own
  property with the value null. The names come from \<^verbatim>\<open>Object.keys\<close>, so none comes twice.\<close>

definition assign_null :: "obj \<Rightarrow> string \<Rightarrow> obj" where
  "assign_null acc tagName =
     (if tagName = ''__proto__'' then acc else set_prop acc tagName JNull)"

definition removeAllDeviceData :: "world \<Rightarrow> unit pw" where
  "removeAllDeviceData w =
     bind (gets api) (\<lambda>a.
     if a = None then throw (Error ''API is not inited'')
     else
     bind getParams (\<lambda>prm.
     let device_type = get_prop prm ''deviceType'' in
     bind (on_api (invoke w GetTags)) (\<lambda>currentTags.
     bind (member (Some currentTags) ''result'') (\<lambda>result.
     bind (object_keys result) (\<lambda>tagNames.
     let clearTags = foldl assign_null [] tagNames in
     bind (on_api (invoke w (PostEvent EVENT_GDPR_DELETE
             (assign [(''status'', JBool True)] ''device_type'' device_type)))) (\<lambda>_.
     bind (on_api (start w (SetTags clearTags))) (\<lambda>p1.
     bind (on_api (start w UnregisterDevice)) (\<lambda>p2.
     bind (Promise_all [Promise p1, Promise p2]) (\<lambda>_.
     keyValue_set KEY_DEVICE_DATA_REMOVED (JNum 1))))))))))"


subsection \<open>setCommunicationEnabled\<close>

definition setCommunicationEnabled :: "world \<Rightarrow> bool \<Rightarrow> json pw" where
  "setCommunicationEnabled w isEnabled =
     bind (gets api) (\<lambda>a.
     if a = None then throw (Error ''API is not inited'')
     else
     bind getParams (\<lambda>prm.
     let device_type = get_prop prm ''deviceType'' in
     bind (on_api (invoke w (PostEvent EVENT_GDPR_CONSENT
             (assign [(''channel'', JBool isEnabled)] ''device_type'' device_type)))) (\<lambda>_.
     bind (keyValue_set KEY_COMMUNICATION_ENABLED (JNum (if isEnabled then 1 else 0))) (\<lambda>_.
     bind (emit w EVENT_ON_CHANGE_COMMUNICATION_ENABLED (Some (JBool isEnabled))) (\<lambda>_.
     if isEnabled then on_api (invoke w RegisterDevice)
     else on_api (invoke w UnregisterDevice))))))"

subsection \<open>defaultProcess\<close>

definition removeRegistrationStatus :: "unit pw" where
  "removeRegistrationStatus =
     modify (\<lambda>s. s\<lparr>registrationStatus := None, trace := trace s @ [RemoveRegistrationStatus]\<rparr>)"

text \<open>The property of a value that is known not to be \<^verbatim>\<open>undefined\<close> or \<^verbatim>\<open>null\<close>.\<close>

definition prop_of :: "json option \<Rightarrow> string \<Rightarrow> json option" where
  "prop_of x k = (case x of Some (JObj kvs) \<Rightarrow> get_prop kvs k | _ \<Rightarrow> None)"

text \<open>Lines 643 to 658: from the query of the permission to the read of the
  device-data-removed flag, which is the value returned.\<close>

definition defaultProcess_begin :: "world \<Rightarrow> (json option) pw" where
  "defaultProcess_begin w =
     bind (on_driver (invoke w GetPermission)) (\<lambda>permission.
     bind (modify (\<lambda>s. s\<lparr>permissionOnInit := Some permission\<rparr>)) (\<lambda>_.
     bind (initApi w) (\<lambda>_.
     bind (callApplicationOpen w False) (\<lambda>_.
     bind (if driver_has_isNeedUnsubscribe w
           then bind (on_driver (invoke w IsNeedUnsubscribe)) (\<lambda>needUnsubscribe.
                  if truthy (Some needUnsubscribe)
                  then bind (gets isDeviceRegistered) (\<lambda>deviceRegistered.
                         if deviceRegistered then unsubscribe w False else ret ())
                  else ret ())
           else ret ()) (\<lambda>_.
     bind (gets isNeedResubscribe) (\<lambda>needResubscribe.
     bind (if needResubscribe then unsubscribe w False else ret ()) (\<lambda>_.
     keyValue_get KEY_DEVICE_DATA_REMOVED)))))))"

text \<open>Lines 664 to 695: the switch on the permission.\<close>

definition permission_denied_case :: "world \<Rightarrow> unit pw" where
  "permission_denied_case w =
     bind (emit w EVENT_ON_PERMISSION_DENIED None) (\<lambda>_.
     bind (gets isSafari) (\<lambda>safari.
     bind (gets isDeviceRegistered) (\<lambda>deviceRegistered.
     bind (if \<not> safari \<and> deviceRegistered then unsubscribe w True else ret ()) (\<lambda>_.
     removeRegistrationStatus))))"

definition permission_prompt_case :: "world \<Rightarrow> json \<Rightarrow> unit pw" where
  "permission_prompt_case w autoSubscribe =
     bind (gets isSafari) (\<lambda>safari.
     bind (gets isDeviceRegistered) (\<lambda>deviceRegistered.
     bind (if \<not> safari \<and> deviceRegistered then unsubscribe w True else ret ()) (\<lambda>_.
     bind removeRegistrationStatus (\<lambda>_.
     if truthy (Some autoSubscribe) then subscribe w
     else emit w EVENT_ON_PERMISSION_PROMPT None))))"

definition permission_granted_case :: "world \<Rightarrow> unit pw" where
  "permission_granted_case w =
     bind (emit w EVENT_ON_PERMISSION_GRANTED None) (\<lambda>_.
     bind (gets (\<lambda>s. (\<not> isSafari s \<and> \<not> isDeviceRegistered s \<and> \<not> isDeviceUnregistered s)
                      \<or> isNeedResubscribe s)) (\<lambda>needSubscribe.
     if needSubscribe then subscribe w else ret ()))"

definition permission_switch :: "world \<Rightarrow> json \<Rightarrow> unit pw" where
  "permission_switch w autoSubscribe =
     bind (gets permissionOnInit) (\<lambda>permission.
     if strict_eq permission (Some (JStr PERMISSION_DENIED)) then permission_denied_case w
     else if strict_eq permission (Some (JStr PERMISSION_PROMPT))
       then permission_prompt_case w autoSubscribe
     else if strict_eq permission (Some (JStr PERMISSION_GRANTED)) then permission_granted_case w
     else logger ''unknown permission value'')"

text \<open>Lines 697 to 714: the second \<^verbatim>\<open>initApi\<close>, the install sequence, the ready event and
  the delayed event.\<close>

definition emit_delayed :: "world \<Rightarrow> json option \<Rightarrow> unit pw" where
  "emit_delayed w delayedEvent =
     (let type = prop_of delayedEvent ''type''; payload = prop_of delayedEvent ''payload'' in
      bind (case type of
              Some (JStr name) \<Rightarrow> emit w name payload
            | _ \<Rightarrow> record_action (EmitUntyped type payload)) (\<lambda>_.
      keyValue_set KEY_DELAYED_EVENT JNull))"

definition defaultProcess_finish :: "world \<Rightarrow> unit pw" where
  "defaultProcess_finish w =
     bind (initApi w) (\<lambda>_.
     bind (installDevice w False) (\<lambda>_.
     bind (needForcedOpen w) (\<lambda>force.
     bind (if force then callApplicationOpen w True else ret ()) (\<lambda>_.
     bind (emit w EVENT_ON_READY None) (\<lambda>_.
     bind (modify (\<lambda>s. s\<lparr>ready := True\<rparr>)) (\<lambda>_.
     bind (keyValue_get KEY_DELAYED_EVENT) (\<lambda>delayedEvent.
     if truthy delayedEvent then emit_delayed w delayedEvent else ret ())))))))"

definition defaultProcess :: "world \<Rightarrow> unit pw" where
  "defaultProcess w =
     bind (gets params) (\<lambda>p.
     let autoSubscribe =
           (case get_prop (case p of Some ps \<Rightarrow> ps | None \<Rightarrow> []) ''autoSubscribe'' of
              None \<Rightarrow> JBool True | Some a \<Rightarrow> a)
     in
     bind (defaultProcess_begin w) (\<lambda>dataIsRemoved.
     if truthy dataIsRemoved then logger ''Device data has been removed''
     else
       bind (permission_switch w autoSubscribe) (\<lambda>_.
       defaultProcess_finish w)))"

subsection \<open>init\<close>

text \<open>Lines 238 to 265: the parameters of the run, built from the configuration. The
  entry \<^verbatim>\<open>applicationServerPublicKey: undefined\<close> of the worker settings is a property
  without a value.\<close>

definition and_prop :: "json option \<Rightarrow> string \<Rightarrow> json option" where
  "and_prop x k = (if truthy x then prop_of x k else x)"

definition build_tags :: "world \<Rightarrow> obj \<Rightarrow> obj" where
  "build_tags w ip =
     spread
       (spread
          [(''Language'',
            JStr (if navigator_language w = [] then ''en'' else navigator_language w))]
          (own_props (get_prop ip ''tags'')))
       [(''Device Model'', JStr (getBrowserVersion w))]"

definition build_params :: "world \<Rightarrow> json \<Rightarrow> obj \<Rightarrow> obj" where
  "build_params w pushwooshUrl ip =
     (let params =
        spread
          (spread
             [(''autoSubscribe'', JBool True),
              (''serviceWorkerUrl'', JNull),
              (''pushwooshUrl'', pushwooshUrl)]
             ip)
          [(''deviceType'', JNum (getBrowserType w)),
           (''tags'', JObj (build_tags w ip)),
           (''driversSettings'',
              JObj [(''worker'',
                JObj (spread [(''serviceWorkerUrl'', JStr (DEFAULT_SERVICE_WORKER_URL w))]
                        (own_props (and_prop (get_prop ip ''driversSettings'') ''worker''))))]),
           (''subscribeWidget'',
              JObj (spread [(''enable'', JBool False)]
                      (own_props (get_prop ip ''subscribeWidget''))))]
      in if strict_eq (get_prop params ''userId'') (Some (JStr (DEFAULT_USER_ID w)))
         then delete_prop params ''userId''
         else params)"

text \<open>Lines 270 to 273: the three flags computed from the parameters of the previous run.\<close>

definition compute_isNeedResubscribe :: "obj \<Rightarrow> obj \<Rightarrow> bool" where
  "compute_isNeedResubscribe prevParams newParams =
     (truthy (get_prop prevParams ''applicationCode'') \<and>
      \<not> strict_eq (get_prop prevParams ''applicationCode'') (get_prop newParams ''applicationCode''))"

definition compute_isNeedRegisterUser :: "obj \<Rightarrow> obj \<Rightarrow> bool" where
  "compute_isNeedRegisterUser prevParams newParams =
     (truthy (get_prop prevParams ''userId'') \<and> truthy (get_prop newParams ''userId'') \<and>
      \<not> strict_eq (get_prop prevParams ''userId'') (get_prop newParams ''userId''))"

definition compute_isNeedSetTags :: "obj \<Rightarrow> obj \<Rightarrow> bool" where
  "compute_isNeedSetTags prevParams newParams =
     (truthy (get_prop prevParams ''tags'') \<and>
      map_option stringify (get_prop prevParams ''tags'')
        \<noteq> map_option stringify (get_prop newParams ''tags''))"

text \<open>Lines 280 to 322: the choice of the driver.\<close>

definition init_driver :: "world \<Rightarrow> obj \<Rightarrow> unit pw" where
  "init_driver w newParams =
     (if canUseServiceWorkers w
      then
        bind (modify (\<lambda>s. s\<lparr>driver := Some WorkerDriver,
                              trace := trace s @ [NewDriver WorkerDriver]\<rparr>)) (\<lambda>_.
        try_catch
          (if driver_has_initWorker w
           then bind (on_driver (invoke w InitWorker)) (\<lambda>_. ret ())
           else ret ())
          (\<lambda>e. logger ''driver initialization failed''))
      else
        bind (gets isSafari) (\<lambda>safari.
        if safari \<and> truthy (get_prop newParams ''safariWebsitePushID'')
        then modify (\<lambda>s. s\<lparr>driver := Some SafariDriver,
                            onReadyStatHandlers := Suc (onReadyStatHandlers s),
                            trace := trace s @ [NewDriver SafariDriver]\<rparr>)
        else throw (Error ''can't initialize safari'')))"

text \<open>Lines 225 to 337: \<^verbatim>\<open>init\<close> after it has recorded the configuration in the private
  field \<^verbatim>\<open>_initParams\<close>.\<close>

definition init_body :: "world \<Rightarrow> obj \<Rightarrow> unit pw" where
  "init_body w ip =
     (let applicationCode = get_prop ip ''applicationCode'';
          logLevel = (case get_prop ip ''logLevel'' of None \<Rightarrow> JStr ''error'' | Some l \<Rightarrow> l);
          pushwooshApiUrl = get_prop ip ''pushwooshApiUrl''
      in
      if \<not> truthy applicationCode then throw (Error ''no application code'')
      else
      bind (invoke w (GetPushwooshUrl applicationCode pushwooshApiUrl)) (\<lambda>pushwooshUrl.
      let params = build_params w pushwooshUrl ip in
      bind (modify (\<lambda>s. s\<lparr>params := Some params,
                            subscribeWidgetConfig := get_prop params ''subscribeWidget''\<rparr>)) (\<lambda>_.
      bind getParams (\<lambda>prevParams.
      bind (modify (\<lambda>s. s\<lparr>isNeedResubscribe := compute_isNeedResubscribe prevParams params,
                            isNeedRegisterUser := compute_isNeedRegisterUser prevParams params,
                            isNeedSetTags := compute_isNeedSetTags prevParams params\<rparr>)) (\<lambda>_.
      bind (modify (\<lambda>s. s\<lparr>loggerLevel :=
               Some (case manualLoggerLevel s of
                       None \<Rightarrow> logLevel
                     | Some m \<Rightarrow> if m = [] then logLevel else JStr m)\<rparr>)) (\<lambda>_.
      bind (init_driver w params) (\<lambda>_.
      bind (try_catch
              (bind (defaultProcess w) (\<lambda>_.
                 if serviceWorker_in_navigator w
                 then modify (\<lambda>s. s\<lparr>serviceWorker_onmessage := True\<rparr>)
                 else ret ()))
              (\<lambda>e. logger ''defaultProcess fail'')) (\<lambda>_.
      record_action (DispatchEvent ''pushwoosh.initialized'')))))))))"

definition init :: "world \<Rightarrow> obj \<Rightarrow> unit pw" where
  "init w ip = bind (modify (\<lambda>s. s\<lparr>initParams := Some ip\<rparr>)) (\<lambda>_. init_body w ip)"

section \<open>A fresh instance and sample collaborators\<close>

text \<open>The instance as the constructor leaves it, in a browser whose stores are empty.\<close>

definition new_instance :: "bool \<Rightarrow> pw_state" where
  "new_instance safari =
     \<lparr>params = None, initParams = None,
      isNeedResubscribe = False, isNeedRegisterUser = False,
      isNeedRegisterDevice = False, isNeedSetTags = False,
      api = None, driver = None, isSafari = safari,
      permissionOnInit = None, ready = False, subscribeWidgetConfig = None,
      onReadyStatHandlers = 0, serviceWorker_onmessage = False, loggerLevel = None,
      kv = (\<lambda>k. None), registrationStatus = None, manualLoggerLevel = None,
      trace = []\<rparr>"

text \<open>Collaborators that always succeed: the driver reports the given permission and a
  fixed pair of device parameters, is subscribed once asked to subscribe, and the calls
  that register the device mark it registered.\<close>

definition sample_respond :: "string \<Rightarrow> action list \<Rightarrow> call \<Rightarrow> error + json" where
  "sample_respond permission t c =
     (case c of
        GetPermission \<Rightarrow> Inr (JStr permission)
      | GetAPIParams \<Rightarrow> Inr (JObj [(''hwid'', JStr ''h1''), (''pushToken'', JStr ''t1'')])
      | IsSubscribed \<Rightarrow> Inr (JBool (Call (AskSubscribe False) \<in> set t))
      | GetPushwooshUrl a b \<Rightarrow> Inr (JStr ''https://cp.example/json/1.3/'')
      | GetTags \<Rightarrow> Inr (JObj [(''result'', JObj [(''A'', JStr ''x''), (''B'', JStr ''y'')])])
      | _ \<Rightarrow> Inr JNull)"

definition sample_status_after :: "action list \<Rightarrow> call \<Rightarrow> string option \<Rightarrow> string option" where
  "sample_status_after t c st =
     (case c of
        RegisterDevice \<Rightarrow> Some DEVICE_REGISTRATION_STATUS_REGISTERED
      | UnregisterDevice \<Rightarrow> Some DEVICE_REGISTRATION_STATUS_UNREGISTERED
      | _ \<Rightarrow> st)"

definition sample_world :: "string \<Rightarrow> world" where
  "sample_world permission =
     \<lparr>getVersion = ''3.0.1'', getBrowserType = 11, getBrowserVersion = ''Chrome 70'',
      navigator_language = ''en'', canUseServiceWorkers = True,
      serviceWorker_in_navigator = True,
      DEFAULT_USER_ID = ''user_id'', DEFAULT_SERVICE_WORKER_URL = ''/pushwoosh-service-worker.js'',
      PERIOD_SEND_APP_OPEN = 3600000,
      date_now = (\<lambda>t. 1541203200000), location_hash_stat = (\<lambda>t. None),
      driver_has_initWorker = True, driver_has_isNeedUnsubscribe = False,
      respond = sample_respond permission,
      status_after = sample_status_after\<rparr>"

text \<open>The same collaborators with a backend that holds two tags for the device, one of
  them named \<^verbatim>\<open>__proto__\<close>: an own property of the parsed response, which \<^verbatim>\<open>Object.keys\<close>
  lists.\<close>

definition proto_tag_world :: world where
  "proto_tag_world =
     (sample_world PERMISSION_GRANTED)
       \<lparr>respond := (\<lambda>t c. if c = GetTags
                           then Inr (JObj [(''result'',
                                  JObj [(''__proto__'', JStr ''x''), (''B'', JStr ''y'')])])
                           else sample_respond PERMISSION_GRANTED t c)\<rparr>"

text \<open>The sample collaborators with a backend whose \<^verbatim>\<open>unregisterDevice\<close> fails.\<close>

definition failing_unregister_world :: world where
  "failing_unregister_world =
     (sample_world PERMISSION_GRANTED)
       \<lparr>respond := (\<lambda>t c. if c = UnregisterDevice then Inl (Error ''network error'')
                           else sample_respond PERMISSION_GRANTED t c)\<rparr>"

text \<open>The same collaborators with a backend whose \<^verbatim>\<open>registerDevice\<close> fails.\<close>

definition failing_register_world :: world where
  "failing_register_world =
     (sample_world PERMISSION_GRANTED)
       \<lparr>respond := (\<lambda>t c. if c = RegisterDevice then Inl (Error ''network error'')
                           else sample_respond PERMISSION_GRANTED t c)\<rparr>"

text \<open>An instance whose API facade is built and whose store holds the parameters of a
  run, before any install.\<close>

definition built_instance :: pw_state where
  "built_instance =
     (new_instance False)
       \<lparr>api := Some (API [(''hwid'', JStr ''h1'')] (JObj [])),
        driver := Some WorkerDriver,
        kv := (\<lambda>k. None)(KEY_INIT_PARAMS \<mapsto>
                 JObj [(''applicationCode'', JStr ''AAAAA-BBBBB''),
                       (''tags'', JObj [(''Language'', JStr ''en'')])])\<rparr>"

text \<open>A configuration, and the instance as \<^verbatim>\<open>init\<close> leaves it for that configuration just
  before \<^verbatim>\<open>defaultProcess\<close>: parameters built, driver made, stores still empty.\<close>

definition sample_config :: obj where
  "sample_config =
     [(''applicationCode'', JStr ''AAAAA-BBBBB''),
      (''userId'', JStr ''alice''),
      (''tags'', JObj [(''A'', JStr ''x''), (''B'', JStr ''y'')])]"

definition started_instance :: "bool \<Rightarrow> pw_state" where
  "started_instance safari =
     (new_instance safari)
       \<lparr>params := Some (build_params (sample_world PERMISSION_GRANTED)
                          (JStr ''https://cp.example/json/1.3/'') sample_config),
        driver := Some (if safari then SafariDriver else WorkerDriver)\<rparr>"

text \<open>The instance before \<^verbatim>\<open>defaultProcess\<close> with the device marked registered by an earlier
  visit.\<close>

definition registered_instance :: "bool \<Rightarrow> pw_state" where
  "registered_instance safari =
     (started_instance safari)\<lparr>registrationStatus := Some DEVICE_REGISTRATION_STATUS_REGISTERED\<rparr>"

section \<open>Invariants of the asynchronous functions\<close>

text \<open>A predicate on states is preserved by a function when it holds after the function
  whenever it held before, whether the function returns or throws.\<close>

definition preserves :: "(pw_state \<Rightarrow> bool) \<Rightarrow> 'a pw \<Rightarrow> bool" where
  "preserves I m = (\<forall>s. I s \<longrightarrow> I (snd (m s)))"

text \<open>The predicates that every function below \<^verbatim>\<open>defaultProcess\<close>, except \<^verbatim>\<open>initApi\<close>,
  preserves: those insensitive to the trace, to the registration status, to the three
  store slots of the session-open time, the previous permission and the delayed event,
  and to the write of the current SDK version.\<close>

definition stable_inv :: "world \<Rightarrow> (pw_state \<Rightarrow> bool) \<Rightarrow> bool" where
  "stable_inv w I =
     ((\<forall>s t. I s \<longrightarrow> I (s\<lparr>trace := t\<rparr>)) \<and>
      (\<forall>s r. I s \<longrightarrow> I (s\<lparr>registrationStatus := r\<rparr>)) \<and>
      (\<forall>s v. I s \<longrightarrow> I (s\<lparr>kv := (kv s)(KEY_LAST_SENT_APP_OPEN \<mapsto> v)\<rparr>)) \<and>
      (\<forall>s v. I s \<longrightarrow> I (s\<lparr>kv := (kv s)(KEY_SAFARI_PREVIOUS_PERMISSION \<mapsto> v)\<rparr>)) \<and>
      (\<forall>s v. I s \<longrightarrow> I (s\<lparr>kv := (kv s)(KEY_DELAYED_EVENT \<mapsto> v)\<rparr>)) \<and>
      (\<forall>s. I s \<longrightarrow> I (s\<lparr>kv := (kv s)(KEY_SDK_VERSION \<mapsto> JStr (getVersion w))\<rparr>)))"

text \<open>The predicates that are also insensitive to what \<^verbatim>\<open>initApi\<close> writes.\<close>

definition api_stable :: "(pw_state \<Rightarrow> bool) \<Rightarrow> bool" where
  "api_stable I =
     ((\<forall>s b. I s \<longrightarrow> I (s\<lparr>isNeedRegisterDevice := b\<rparr>)) \<and>
      (\<forall>s a. I s \<longrightarrow> I (s\<lparr>api := Some a\<rparr>)) \<and>
      (\<forall>s v. I s \<longrightarrow> I (s\<lparr>kv := (kv s)(KEY_API_PARAMS \<mapsto> v)\<rparr>)) \<and>
      (\<forall>s v. I s \<longrightarrow> I (s\<lparr>kv := (kv s)(KEY_INIT_PARAMS \<mapsto> v)\<rparr>)))"

text \<open>A function ignores the private field \<^verbatim>\<open>_initParams\<close> when it runs the same way
  whatever the field holds, and leaves the field alone.\<close>

definition ignores_initParams :: "'a pw \<Rightarrow> bool" where
  "ignores_initParams m =
     (\<forall>s x. m (s\<lparr>initParams := x\<rparr>) = (fst (m s), (snd (m s))\<lparr>initParams := x\<rparr>))"

text \<open>The API parameters that \<^verbatim>\<open>initApi\<close> builds from the parameters of the run and those of
  the driver, and the state in which a successful \<^verbatim>\<open>initApi\<close> ends; both are used to state
  what \<^verbatim>\<open>initApi\<close> does.\<close>

definition initApi_apiParams :: "obj \<Rightarrow> json \<Rightarrow> obj" where
  "initApi_apiParams p driverApiParams =
     (let tags = get_prop p ''tags'';
          apiParams0 =
            assign (assign (assign (assign (assign
              (spread [] (own_props (Some driverApiParams)))
              ''deviceType'' (get_prop p ''deviceType''))
              ''deviceModel'' (prop_of tags ''Device Model''))
              ''applicationCode'' (get_prop p ''applicationCode''))
              ''language'' (prop_of tags ''Language''))
              ''pushwooshApiUrl'' (get_prop p ''pushwooshApiUrl'')
      in if truthy (get_prop p ''userId'')
         then assign apiParams0 ''userId'' (get_prop p ''userId'')
         else apiParams0)"

definition initApi_state :: "world \<Rightarrow> obj \<Rightarrow> json \<Rightarrow> pw_state \<Rightarrow> pw_state" where
  "initApi_state w p driverApiParams s =
     (let newApi = JObj (spread (spread [] (own_props (kv s KEY_API_PARAMS)))
                           (own_props (Some driverApiParams)));
          newInit = JObj (spread (spread [] (own_props (kv s KEY_INIT_PARAMS))) p)
      in s\<lparr>registrationStatus := status_after w (trace s) GetAPIParams (registrationStatus s),
            isNeedRegisterDevice :=
              (stringify driverApiParams \<noteq> stringify (or_else (kv s KEY_API_PARAMS) (JObj []))),
            kv := (kv s)(KEY_API_PARAMS \<mapsto> newApi, KEY_INIT_PARAMS \<mapsto> newInit),
            trace := trace s @ [Call GetAPIParams, KVSet KEY_API_PARAMS newApi,
                                KVSet KEY_INIT_PARAMS newInit],
            api := Some (API (initApi_apiParams p driverApiParams)
                           (or_else (kv s KEY_LAST_OPEN_MESSAGE) (JObj [])))\<rparr>)"

section \<open>Running the asynchronous functions\<close>

lemmas monad_defs = ret_def throw_def bind_def try_catch_def gets_def modify_def
  record_action_def logger_def start_def settle_def invoke_def on_driver_def on_api_def
  member_def Promise_all_def keyValue_get_def keyValue_getAll_def keyValue_set_def
  keyValue_extend_def isCommunicationEnabled_def

lemmas sample_defs = sample_world_def sample_respond_def sample_status_after_def
  failing_register_world_def built_instance_def new_instance_def sample_config_def
  started_instance_def proto_tag_world_def failing_unregister_world_def

lemmas constant_defs = PERMISSION_DENIED_def PERMISSION_GRANTED_def PERMISSION_PROMPT_def
  DEVICE_REGISTRATION_STATUS_REGISTERED_def DEVICE_REGISTRATION_STATUS_UNREGISTERED_def
  EVENT_GDPR_CONSENT_def EVENT_GDPR_DELETE_def EVENT_ON_READY_def EVENT_ON_SUBSCRIBE_def
  EVENT_ON_UNSUBSCRIBE_def EVENT_ON_REGISTER_def EVENT_ON_PERMISSION_PROMPT_def
  EVENT_ON_PERMISSION_DENIED_def EVENT_ON_PERMISSION_GRANTED_def
  EVENT_ON_CHANGE_COMMUNICATION_ENABLED_def

lemma bind_gets: "bind (gets f) k s = k (f s) s"
  by (simp add: bind_def gets_def)

lemma bind_modify: "bind (modify f) k s = k () (f s)"
  by (simp add: bind_def modify_def)

lemma bind_isCommunicationEnabled:
  "bind isCommunicationEnabled k s =
     k (\<not> strict_eq (kv s KEY_COMMUNICATION_ENABLED) (Some (JNum 0))) s"
  by (simp add: monad_defs)

lemma logger_apply: "logger msg s = (Inr (), s\<lparr>trace := trace s @ [Log msg]\<rparr>)"
  by (simp add: logger_def record_action_def modify_def)

lemma try_catch_logger: "fst (try_catch m (\<lambda>e. logger msg) s) = Inr ()"
  by (simp add: try_catch_def logger_apply split: prod.splits sum.splits)

section \<open>The install sequence and the aggregation of its calls (C1)\<close>

text \<open>
  C1. The claim: after the aggregation in \<^verbatim>\<open>installDevice\<close>, every selected call has been
  waited for, and a rejection of a selected call is observed by the aggregation. The
  code passes \<^verbatim>\<open>[installationMethods]\<close> to \<^verbatim>\<open>Promise.all\<close>, a list whose one element is an
  array and not a promise, so nothing is waited for. On a fresh store with a backend
  whose \<^verbatim>\<open>registerDevice\<close> rejects, all three calls are started, the promise of
  \<^verbatim>\<open>registerDevice\<close> rejects, and \<^verbatim>\<open>installDevice\<close> still returns normally and emits the
  register event. The list of the promises itself, given to \<^verbatim>\<open>Promise.all\<close>, rejects.
\<close>

theorem installDevice_loses_rejection:
  "respond failing_register_world
     (trace built_instance @ [KVSet KEY_SDK_VERSION (JStr ''3.0.1'')]) RegisterDevice
     = Inl (Error ''network error'')
   \<and> fst (installDevice failing_register_world False built_instance) = Inr ()
   \<and> trace (snd (installDevice failing_register_world False built_instance)) =
       [KVSet KEY_SDK_VERSION (JStr ''3.0.1''), Call RegisterDevice,
        Call (SetTags [(''Language'', JStr ''en'')]), Call RegisterUser,
        Emit EVENT_ON_REGISTER None]
   \<and> first_rejection
        [Promise (Inr JNull), Promise (Inl (Error ''network error'')),
         Promise (Inr JNull), Promise (Inr JNull)] = Some (Error ''network error'')
   \<and> first_rejection
        [Array [Promise (Inr JNull), Promise (Inl (Error ''network error'')),
                Promise (Inr JNull), Promise (Inr JNull)]] = None"
  by (simp add: installDevice_def sample_defs emit_def Let_def monad_defs constant_defs
      spread_def set_prop_def get_prop_def)

section \<open>Communication disabled (C3)\<close>

text \<open>
  C3, as the claim states it, fails for the install sequence: \<^verbatim>\<open>installDevice\<close> checks
  the API facade before it reads the communication flag, and throws when the facade is
  not built, also with the flag at 0.
\<close>

theorem installDevice_disabled_without_api_counterexample:
  "kv ((new_instance False)\<lparr>kv := (\<lambda>k. None)(KEY_COMMUNICATION_ENABLED \<mapsto> JNum 0)\<rparr>)
      KEY_COMMUNICATION_ENABLED = Some (JNum 0)
   \<and> installDevice (sample_world PERMISSION_GRANTED) False
        ((new_instance False)\<lparr>kv := (\<lambda>k. None)(KEY_COMMUNICATION_ENABLED \<mapsto> JNum 0)\<rparr>)
      = (Inl (Error ''API is not inited''),
         (new_instance False)\<lparr>kv := (\<lambda>k. None)(KEY_COMMUNICATION_ENABLED \<mapsto> JNum 0)\<rparr>)"
  by (simp add: installDevice_def new_instance_def bind_gets throw_def)

text \<open>
  C3, amended. In every state whose stored communication flag is 0, whatever the four
  flags and the force parameter: \<^verbatim>\<open>subscribe\<close> returns normally, having only logged that
  communication is disabled; and \<^verbatim>\<open>installDevice\<close> changes nothing, so it starts no call,
  and returns normally when the API facade is built (it throws
  \<^verbatim>\<open>API is not inited\<close> when it is not).
\<close>

theorem communication_disabled_no_calls:
  assumes "kv s KEY_COMMUNICATION_ENABLED = Some (JNum 0)"
  shows "subscribe w s =
           (Inr (), s\<lparr>trace := trace s @ [Log ''Communication is disabled'']\<rparr>)
       \<and> installDevice w force s =
           (if api s = None then (Inl (Error ''API is not inited''), s) else (Inr (), s))"
  using assms
  by (simp add: subscribe_def installDevice_def bind_isCommunicationEnabled logger_apply
      bind_gets ret_def throw_def)

theorem communication_disabled_no_calls_witness:
  "kv (built_instance\<lparr>isNeedRegisterDevice := True, isNeedSetTags := True,
         isNeedRegisterUser := True, isNeedResubscribe := True,
         kv := (kv built_instance)(KEY_COMMUNICATION_ENABLED \<mapsto> JNum 0)\<rparr>)
      KEY_COMMUNICATION_ENABLED = Some (JNum 0)
   \<and> installDevice (sample_world PERMISSION_GRANTED) True
        (built_instance\<lparr>isNeedRegisterDevice := True, isNeedSetTags := True,
           isNeedRegisterUser := True, isNeedResubscribe := True,
           kv := (kv built_instance)(KEY_COMMUNICATION_ENABLED \<mapsto> JNum 0)\<rparr>)
      = (Inr (),
         built_instance\<lparr>isNeedRegisterDevice := True, isNeedSetTags := True,
           isNeedRegisterUser := True, isNeedResubscribe := True,
           kv := (kv built_instance)(KEY_COMMUNICATION_ENABLED \<mapsto> JNum 0)\<rparr>)"
  using communication_disabled_no_calls
    [of "built_instance\<lparr>isNeedRegisterDevice := True, isNeedSetTags := True,
           isNeedRegisterUser := True, isNeedResubscribe := True,
           kv := (kv built_instance)(KEY_COMMUNICATION_ENABLED \<mapsto> JNum 0)\<rparr>"
        "sample_world PERMISSION_GRANTED" True]
  by (simp add: built_instance_def new_instance_def)

section \<open>subscribe and unsubscribe swallow every failure (C7)\<close>

text \<open>
  C7. Whatever the driver and the backend answer, and in every state, the public
  \<^verbatim>\<open>subscribe\<close> and \<^verbatim>\<open>unsubscribe\<close> return normally: their bodies run inside a
  \<^verbatim>\<open>try\<close> whose handler only logs.
\<close>

theorem subscribe_unsubscribe_never_throw:
  "fst (subscribe w s) = Inr () \<and> fst (unsubscribe w notify s) = Inr ()"
  by (simp add: subscribe_def unsubscribe_def bind_isCommunicationEnabled try_catch_logger
      logger_apply)

section \<open>A configuration without application code (C8)\<close>

text \<open>
  C8. When the application code of the configuration is absent or empty (falsy),
  \<^verbatim>\<open>init\<close> rejects with the error \<^verbatim>\<open>no application code\<close>. Nothing has been written to the
  stores, no driver has been made and no collaborator has been called by then: the state
  is the one before the call, in which the private field \<^verbatim>\<open>_initParams\<close> records the
  configuration that was passed.
\<close>

theorem init_rejects_missing_applicationCode:
  assumes "\<not> truthy (get_prop ip ''applicationCode'')"
  shows "init w ip s = (Inl (Error ''no application code''), s\<lparr>initParams := Some ip\<rparr>)"
  using assms by (simp add: init_def init_body_def Let_def bind_modify throw_def)

theorem init_rejects_missing_applicationCode_witness:
  "\<not> truthy (get_prop [(''applicationCode'', JStr []), (''userId'', JStr ''u1'')]
        ''applicationCode'')
   \<and> init (sample_world PERMISSION_GRANTED)
        [(''applicationCode'', JStr []), (''userId'', JStr ''u1'')] (new_instance False)
      = (Inl (Error ''no application code''),
         (new_instance False)
           \<lparr>initParams := Some [(''applicationCode'', JStr []), (''userId'', JStr ''u1'')]\<rparr>)"
  using init_rejects_missing_applicationCode
    [of "[(''applicationCode'', JStr []), (''userId'', JStr ''u1'')]"
        "sample_world PERMISSION_GRANTED" "new_instance False"]
  by (simp add: get_prop_def)

section \<open>Preservation of invariants\<close>

named_theorems pres

lemma preserves_ret [pres]: "preserves I (ret v)"
  by (simp add: preserves_def ret_def)

lemma preserves_throw [pres]: "preserves I (throw e)"
  by (simp add: preserves_def throw_def)

lemma preserves_gets [pres]: "preserves I (gets f)"
  by (simp add: preserves_def gets_def)

lemma preserves_modify: "(\<And>s. I s \<Longrightarrow> I (f s)) \<Longrightarrow> preserves I (modify f)"
  by (simp add: preserves_def modify_def)

lemma preserves_bind [pres]:
  "preserves I m \<Longrightarrow> (\<And>v. preserves I (k v)) \<Longrightarrow> preserves I (bind m k)"
  by (auto simp add: preserves_def bind_def split: prod.splits sum.splits)

lemma preserves_try_catch [pres]:
  "preserves I m \<Longrightarrow> (\<And>e. preserves I (h e)) \<Longrightarrow> preserves I (try_catch m h)"
  by (auto simp add: preserves_def try_catch_def split: prod.splits sum.splits)

lemma preserves_if [pres]:
  "(b \<Longrightarrow> preserves I m) \<Longrightarrow> (\<not> b \<Longrightarrow> preserves I n) \<Longrightarrow> preserves I (if b then m else n)"
  by simp

lemma preserves_case_option [pres]:
  "(x = None \<Longrightarrow> preserves I m) \<Longrightarrow> (\<And>v. x = Some v \<Longrightarrow> preserves I (n v))
   \<Longrightarrow> preserves I (case x of None \<Rightarrow> m | Some v \<Rightarrow> n v)"
  by (cases x) simp_all

lemma preserves_let [pres]: "preserves I (f x) \<Longrightarrow> preserves I (let y = x in f y)"
  by simp

lemma preserves_record_action [pres]: "stable_inv w I \<Longrightarrow> preserves I (record_action a)"
  unfolding record_action_def by (rule preserves_modify) (simp add: stable_inv_def)

lemma preserves_logger [pres]: "stable_inv w I \<Longrightarrow> preserves I (logger msg)"
  unfolding logger_def by (rule preserves_record_action)

lemma preserves_start [pres]: "stable_inv w I \<Longrightarrow> preserves I (start w c)"
  by (simp add: preserves_def start_def stable_inv_def)

lemma preserves_settle [pres]: "preserves I (settle p)"
  by (cases p) (simp_all add: settle_def pres)

lemma preserves_invoke [pres]: "stable_inv w I \<Longrightarrow> preserves I (invoke w c)"
  unfolding invoke_def by (intro pres)

lemma preserves_on_driver [pres]: "preserves I m \<Longrightarrow> preserves I (on_driver m)"
  unfolding on_driver_def by (intro pres)

lemma preserves_on_api [pres]: "preserves I m \<Longrightarrow> preserves I (on_api m)"
  unfolding on_api_def by (intro pres)

lemma preserves_member [pres]: "preserves I (member x k)"
  by (simp add: member_def pres split: option.splits json.splits)

lemma preserves_Promise_all [pres]: "preserves I (Promise_all xs)"
  by (simp add: Promise_all_def pres split: option.splits)

lemma preserves_number_or_zero [pres]: "preserves I (number_or_zero val)"
  by (simp add: number_or_zero_def pres split: option.splits number.splits)

lemma preserves_keyValue_get [pres]: "preserves I (keyValue_get k)"
  unfolding keyValue_get_def by (intro pres)

lemma preserves_keyValue_getAll [pres]: "preserves I keyValue_getAll"
  unfolding keyValue_getAll_def by (intro pres)

lemma preserves_isCommunicationEnabled [pres]: "preserves I isCommunicationEnabled"
  unfolding isCommunicationEnabled_def by (intro pres)

lemma preserves_getParams [pres]: "preserves I getParams"
  unfolding getParams_def by (intro pres)

lemma preserves_stat_handler [pres]: "stable_inv w I \<Longrightarrow> preserves I (stat_handler w)"
  unfolding stat_handler_def by (intro pres)

lemma preserves_run_stat_handlers [pres]:
  "stable_inv w I \<Longrightarrow> preserves I (run_stat_handlers w n)"
  by (induction n) (simp_all add: pres)

lemma preserves_emit [pres]: "stable_inv w I \<Longrightarrow> preserves I (emit w name payload)"
  unfolding emit_def by (intro pres)

lemma preserves_keyValue_set_minor:
  "stable_inv w I \<Longrightarrow>
   k \<in> {KEY_LAST_SENT_APP_OPEN, KEY_SAFARI_PREVIOUS_PERMISSION, KEY_DELAYED_EVENT} \<Longrightarrow>
   preserves I (keyValue_set k v)"
  unfolding keyValue_set_def
  by (rule preserves_modify) (auto simp add: stable_inv_def)

lemma preserves_keyValue_set_version:
  "stable_inv w I \<Longrightarrow> preserves I (keyValue_set KEY_SDK_VERSION (JStr (getVersion w)))"
  unfolding keyValue_set_def
  by (rule preserves_modify) (auto simp add: stable_inv_def)

lemma preserves_sendApplicationOpen [pres]:
  "stable_inv w I \<Longrightarrow> preserves I (sendApplicationOpen w force curTime lastSentTime)"
  unfolding sendApplicationOpen_def
  by (intro pres preserves_keyValue_set_minor) simp_all

lemma preserves_callApplicationOpen [pres]:
  "stable_inv w I \<Longrightarrow> preserves I (callApplicationOpen w force)"
  unfolding callApplicationOpen_def
  by (intro pres)

lemma preserves_needForcedOpen [pres]:
  "stable_inv w I \<Longrightarrow> preserves I (needForcedOpen w)"
  unfolding needForcedOpen_def
  by (intro pres preserves_keyValue_set_minor) simp_all

lemma preserves_installDevice [pres]:
  "stable_inv w I \<Longrightarrow> preserves I (installDevice w force)"
  unfolding installDevice_def
  by (intro pres preserves_keyValue_set_version)

lemma preserves_unsubscribe [pres]:
  "stable_inv w I \<Longrightarrow> preserves I (unsubscribe w notify)"
  unfolding unsubscribe_def by (intro pres)

lemma preserves_onSubscribeEmitter [pres]:
  "stable_inv w I \<Longrightarrow> preserves I (onSubscribeEmitter w)"
  unfolding onSubscribeEmitter_def by (intro pres)

lemma preserves_registerDuringSubscribe [pres]:
  "stable_inv w I \<Longrightarrow> preserves I (registerDuringSubscribe w)"
  unfolding registerDuringSubscribe_def by (intro pres)

lemma preserves_subscribe [pres]:
  "stable_inv w I \<Longrightarrow> preserves I (subscribe w)"
  unfolding subscribe_def by (intro pres)


lemma preserves_removeRegistrationStatus [pres]:
  "stable_inv w I \<Longrightarrow> preserves I removeRegistrationStatus"
  unfolding removeRegistrationStatus_def
  by (rule preserves_modify) (simp add: stable_inv_def)

lemma preserves_permission_denied_case [pres]:
  "stable_inv w I \<Longrightarrow> preserves I (permission_denied_case w)"
  unfolding permission_denied_case_def by (intro pres)

lemma preserves_permission_prompt_case [pres]:
  "stable_inv w I \<Longrightarrow> preserves I (permission_prompt_case w autoSubscribe)"
  unfolding permission_prompt_case_def by (intro pres)

lemma preserves_permission_granted_case [pres]:
  "stable_inv w I \<Longrightarrow> preserves I (permission_granted_case w)"
  unfolding permission_granted_case_def by (intro pres)

lemma preserves_permission_switch [pres]:
  "stable_inv w I \<Longrightarrow> preserves I (permission_switch w autoSubscribe)"
  unfolding permission_switch_def by (intro pres)

lemma preserves_keyValue_extend_api:
  "stable_inv w I \<Longrightarrow> api_stable I \<Longrightarrow> k \<in> {KEY_API_PARAMS, KEY_INIT_PARAMS} \<Longrightarrow>
   preserves I (keyValue_extend k v)"
  unfolding keyValue_extend_def keyValue_set_def
  by (intro pres preserves_modify) (auto simp add: stable_inv_def api_stable_def)

lemma preserves_initApi [pres]:
  "stable_inv w I \<Longrightarrow> api_stable I \<Longrightarrow> preserves I (initApi w)"
  unfolding initApi_def
  by (intro pres preserves_modify preserves_keyValue_extend_api)
     (simp_all add: api_stable_def)

lemma preserves_emit_delayed [pres]:
  "stable_inv w I \<Longrightarrow> preserves I (emit_delayed w d)"
  unfolding emit_delayed_def
  by (intro pres preserves_keyValue_set_minor)
     (simp_all add: pres split: option.splits json.splits)


section \<open>The tombstone halts the startup (C6)\<close>

lemma bind_InrE:
  assumes "bind m k s = (Inr d, s1)"
  obtains v s' where "m s = (Inr v, s')" and "k v s' = (Inr d, s1)"
  using assms by (auto simp add: bind_def split: prod.splits sum.splits)

lemma preservesD: "preserves I m \<Longrightarrow> I s \<Longrightarrow> m s = (r, s') \<Longrightarrow> I s'"
  by (auto simp add: preserves_def)

lemma defaultProcess_begin_result:
  assumes "defaultProcess_begin w s = (Inr d, s1)"
  shows "d = kv s1 KEY_DEVICE_DATA_REMOVED"
  using assms unfolding defaultProcess_begin_def
  by (elim bind_InrE) (simp add: keyValue_get_def gets_def)

lemma preserves_defaultProcess_begin:
  assumes "stable_inv w I" "api_stable I" "\<And>s p. I s \<Longrightarrow> I (s\<lparr>permissionOnInit := p\<rparr>)"
  shows "preserves I (defaultProcess_begin w)"
  unfolding defaultProcess_begin_def
  by (intro pres preserves_modify assms)

lemma tombstone_stable:
  "stable_inv w (\<lambda>s. truthy (kv s KEY_DEVICE_DATA_REMOVED) \<and> ready s = b)"
  "api_stable (\<lambda>s. truthy (kv s KEY_DEVICE_DATA_REMOVED) \<and> ready s = b)"
  by (simp_all add: stable_inv_def api_stable_def)

lemma defaultProcess_apply:
  "defaultProcess w s =
     (case defaultProcess_begin w s of
        (Inl e, s1) \<Rightarrow> (Inl e, s1)
      | (Inr d, s1) \<Rightarrow>
          (if truthy d then logger ''Device data has been removed'' s1
           else bind (permission_switch w
                        (case get_prop (case params s of Some ps \<Rightarrow> ps | None \<Rightarrow> [])
                                ''autoSubscribe'' of
                           None \<Rightarrow> JBool True | Some a \<Rightarrow> a))
                  (\<lambda>_. defaultProcess_finish w) s1))"
  apply (simp add: defaultProcess_def bind_gets Let_def)
  apply (subst bind_def)
  apply (simp split: prod.splits sum.splits)
  done

text \<open>
  C6. When the device-data-removed flag is set at startup, \<^verbatim>\<open>defaultProcess\<close> stops at the
  check of the flag: either it failed before the check, or it returns normally in the
  state of the check with only the message of the logger added to the trace. So the
  switch on the permission does not run, no collaborator is called and no event is
  emitted after the check, and the ready flag is the one before the startup.
\<close>

theorem tombstone_stops_startup:
  assumes "truthy (kv s KEY_DEVICE_DATA_REMOVED)"
  shows "defaultProcess w s =
           (case defaultProcess_begin w s of
              (Inl e, s1) \<Rightarrow> (Inl e, s1)
            | (Inr d, s1) \<Rightarrow>
                (Inr (), s1\<lparr>trace := trace s1 @ [Log ''Device data has been removed'']\<rparr>))
         \<and> ready (snd (defaultProcess w s)) = ready s"
proof -
  let ?I = "\<lambda>s'. truthy (kv s' KEY_DEVICE_DATA_REMOVED) \<and> ready s' = ready s"
  obtain r s1 where run: "defaultProcess_begin w s = (r, s1)"
    by (cases "defaultProcess_begin w s")
  have "preserves ?I (defaultProcess_begin w)"
    by (rule preserves_defaultProcess_begin) (simp_all add: tombstone_stable)
  then have inv: "?I s1"
    using assms run by (auto dest: preservesD)
  show ?thesis
  proof (cases r)
    case (Inl e)
    then show ?thesis
      using run inv by (simp add: defaultProcess_apply)
  next
    case (Inr d)
    then have "d = kv s1 KEY_DEVICE_DATA_REMOVED"
      using run defaultProcess_begin_result by blast
    then show ?thesis
      using run inv Inr by (simp add: defaultProcess_apply logger_apply)
  qed
qed

lemmas eval_defs = defaultProcess_begin_def initApi_def callApplicationOpen_def
  number_or_zero_def sendApplicationOpen_def unsubscribe_def emit_def build_params_def build_tags_def
  and_prop_def prop_of_def assign_def or_else_def spread_def set_prop_def get_prop_def
  delete_prop_def Let_def

theorem tombstone_stops_startup_witness:
  "truthy (kv ((started_instance False)\<lparr>kv := (\<lambda>k. None)(KEY_DEVICE_DATA_REMOVED \<mapsto> JNum 1)\<rparr>)
             KEY_DEVICE_DATA_REMOVED)
   \<and> fst (defaultProcess (sample_world PERMISSION_GRANTED)
        ((started_instance False)\<lparr>kv := (\<lambda>k. None)(KEY_DEVICE_DATA_REMOVED \<mapsto> JNum 1)\<rparr>)) = Inr ()
   \<and> ready (snd (defaultProcess (sample_world PERMISSION_GRANTED)
        ((started_instance False)\<lparr>kv := (\<lambda>k. None)(KEY_DEVICE_DATA_REMOVED \<mapsto> JNum 1)\<rparr>))) = False
   \<and> filter (\<lambda>a. case a of KVSet k v \<Rightarrow> False | _ \<Rightarrow> True)
        (trace (snd (defaultProcess (sample_world PERMISSION_GRANTED)
          ((started_instance False)\<lparr>kv := (\<lambda>k. None)(KEY_DEVICE_DATA_REMOVED \<mapsto> JNum 1)\<rparr>))))
      = [Call GetPermission, Call GetAPIParams, Call GetAPIParams, Call ApplicationOpen,
         Log ''Device data has been removed'']"
  using tombstone_stops_startup
    [of "(started_instance False)\<lparr>kv := (\<lambda>k. None)(KEY_DEVICE_DATA_REMOVED \<mapsto> JNum 1)\<rparr>"
        "sample_world PERMISSION_GRANTED"]
  by (simp add: eval_defs sample_defs monad_defs constant_defs)

section \<open>Objects\<close>

lemma get_prop_set_prop:
  "get_prop (set_prop ob k v) k' = (if k' = k then Some v else get_prop ob k')"
  by (simp add: get_prop_def set_prop_def update_conv')

lemma get_prop_clear:
  "get_prop (foldl assign_null ob ks) k =
     (if k \<in> set ks \<and> k \<noteq> ''__proto__'' then Some JNull else get_prop ob k)"
  by (induction ks arbitrary: ob) (auto simp add: assign_null_def get_prop_set_prop)

section \<open>Steps of a run\<close>

lemma bind_invoke_ok:
  "respond w (trace s) c = Inr v \<Longrightarrow>
   bind (invoke w c) k s =
     k v (s\<lparr>registrationStatus := status_after w (trace s) c (registrationStatus s),
            trace := trace s @ [Call c]\<rparr>)"
  by (simp add: invoke_def settle_def start_def bind_def ret_def)

lemma bind_invoke_fail:
  "respond w (trace s) c = Inl e \<Longrightarrow>
   bind (invoke w c) k s =
     (Inl e, s\<lparr>registrationStatus := status_after w (trace s) c (registrationStatus s),
               trace := trace s @ [Call c]\<rparr>)"
  by (simp add: invoke_def settle_def start_def bind_def throw_def)

lemma bind_on_api_ok: "api s \<noteq> None \<Longrightarrow> bind (on_api m) k s = bind m k s"
  by (auto simp add: on_api_def bind_def gets_def split: option.splits)

lemma bind_on_driver_ok: "driver s \<noteq> None \<Longrightarrow> bind (on_driver m) k s = bind m k s"
  by (auto simp add: on_driver_def bind_def gets_def split: option.splits)

lemma bind_start:
  "bind (start w c) k s =
     k (respond w (trace s) c)
       (s\<lparr>registrationStatus := status_after w (trace s) c (registrationStatus s),
          trace := trace s @ [Call c]\<rparr>)"
  by (simp add: bind_def start_def)

lemma bind_ret: "bind (ret v) k s = k v s"
  by (simp add: bind_def ret_def)

lemma bind_getParams:
  "bind getParams k s =
     k (spread (spread [] (own_props (kv s KEY_API_PARAMS))) (own_props (kv s KEY_INIT_PARAMS))) s"
  by (simp add: getParams_def keyValue_getAll_def bind_def gets_def ret_def)

lemma Promise_all_resolved: "Promise_all [Promise (Inr a), Promise (Inr b)] = ret ()"
  by (simp add: Promise_all_def)

section \<open>Removal of all device data (C9)\<close>

text \<open>The clearing payload has the names of the mapping other than \<^verbatim>\<open>__proto__\<close>, each with
  the value null, and nothing else.\<close>

lemma clearTags_props:
  "get_prop (foldl assign_null [] (map fst tags)) k =
     (if k \<in> fst ` set tags \<and> k \<noteq> ''__proto__'' then Some JNull else None)"
  by (simp add: get_prop_clear) (simp add: get_prop_def)

text \<open>The run of \<^verbatim>\<open>removeAllDeviceData\<close> with the API facade built, for every mapping that
  \<^verbatim>\<open>getTags\<close> returns as its \<^verbatim>\<open>result\<close> and a backend that accepts the post of the event:
  \<^verbatim>\<open>setTags\<close> with the clearing payload and \<^verbatim>\<open>unregisterDevice\<close> are both started, in this
  order; when both succeed the flag is written with 1, and when one of them is rejected
  the function rejects with the first rejection and the flag is not written.\<close>

lemma bind_throw: "bind (throw e) k s = (Inl e, s)"
  by (simp add: bind_def throw_def)

lemma removeAllDeviceData_run:
  assumes facade: "api s \<noteq> None"
    and tags: "respond w (trace s) GetTags = Inr (JObj r)"
              "get_prop r ''result'' = Some (JObj tags)"
    and payload: "payload = assign [(''status'', JBool True)] ''device_type''
        (get_prop (spread (spread [] (own_props (kv s KEY_API_PARAMS)))
                     (own_props (kv s KEY_INIT_PARAMS))) ''deviceType'')"
    and clear: "clearTags = foldl assign_null [] (map fst tags)"
    and t1: "t1 = trace s @ [Call GetTags]"
    and posted: "respond w t1 (PostEvent EVENT_GDPR_DELETE payload) = Inr v"
    and t2: "t2 = t1 @ [Call (PostEvent EVENT_GDPR_DELETE payload)]"
    and t3: "t3 = t2 @ [Call (SetTags clearTags)]"
    and s3: "s3 = s\<lparr>registrationStatus :=
                      status_after w t3 UnregisterDevice
                        (status_after w t2 (SetTags clearTags)
                          (status_after w t1 (PostEvent EVENT_GDPR_DELETE payload)
                            (status_after w (trace s) GetTags (registrationStatus s)))),
                    trace := t3 @ [Call UnregisterDevice]\<rparr>"
  shows "removeAllDeviceData w s =
     (case first_rejection [Promise (respond w t2 (SetTags clearTags)),
                            Promise (respond w t3 UnregisterDevice)] of
        Some e \<Rightarrow> (Inl e, s3)
      | None \<Rightarrow> (Inr (), s3\<lparr>kv := (kv s3)(KEY_DEVICE_DATA_REMOVED \<mapsto> JNum 1),
                            trace := trace s3 @ [KVSet KEY_DEVICE_DATA_REMOVED (JNum 1)]\<rparr>))"
proof -
  obtain a where a: "api s = Some a"
    using facade by auto
  show ?thesis
    unfolding removeAllDeviceData_def payload clear t1 t2 t3 s3
    using a tags posted [unfolded t1 payload]
    by (simp add: bind_gets bind_getParams Let_def bind_on_api_ok bind_invoke_ok
        member_def object_keys_def bind_ret bind_start Promise_all_def keyValue_set_def
        modify_def bind_throw split: option.splits)
qed

text \<open>
  C9, at a mapping with a tag named \<^verbatim>\<open>__proto__\<close>. The backend holds the tags
  \<^verbatim>\<open>{"__proto__": "x", "B": "y"}\<close> and accepts every call. \<^verbatim>\<open>removeAllDeviceData\<close> returns
  normally after \<^verbatim>\<open>getTags\<close>, the post of the GDPR-delete event, \<^verbatim>\<open>setTags\<close>,
  \<^verbatim>\<open>unregisterDevice\<close> and the write of 1 to the device-data-removed flag, but the payload
  of \<^verbatim>\<open>setTags\<close> is \<^verbatim>\<open>{"B": null}\<close>: it has no key \<^verbatim>\<open>__proto__\<close>, so the keys of the payload
  are not the keys of the mapping and that tag is not cleared.
\<close>

theorem removeAllDeviceData_leaves_proto_tag:
  "respond proto_tag_world (trace built_instance) GetTags
     = Inr (JObj [(''result'', JObj [(''__proto__'', JStr ''x''), (''B'', JStr ''y'')])])
   \<and> fst (removeAllDeviceData proto_tag_world built_instance) = Inr ()
   \<and> trace (snd (removeAllDeviceData proto_tag_world built_instance)) =
       [Call GetTags, Call (PostEvent EVENT_GDPR_DELETE [(''status'', JBool True)]),
        Call (SetTags [(''B'', JNull)]), Call UnregisterDevice,
        KVSet KEY_DEVICE_DATA_REMOVED (JNum 1)]
   \<and> kv (snd (removeAllDeviceData proto_tag_world built_instance)) KEY_DEVICE_DATA_REMOVED
       = Some (JNum 1)"
  by (simp add: removeAllDeviceData_def getParams_def object_keys_def assign_null_def
      assign_def get_prop_def set_prop_def delete_prop_def spread_def
      monad_defs sample_defs)

text \<open>Away from that name the payload is as the scenario of the specification has it: for
  the tags \<^verbatim>\<open>{A: "x", B: "y"}\<close> the calls are the same and \<^verbatim>\<open>setTags\<close> carries
  \<^verbatim>\<open>{A: null, B: null}\<close>.\<close>

lemma removeAllDeviceData_sample:
  "fst (removeAllDeviceData (sample_world PERMISSION_GRANTED) built_instance) = Inr ()
   \<and> trace (snd (removeAllDeviceData (sample_world PERMISSION_GRANTED) built_instance)) =
       [Call GetTags, Call (PostEvent EVENT_GDPR_DELETE [(''status'', JBool True)]),
        Call (SetTags [(''A'', JNull), (''B'', JNull)]), Call UnregisterDevice,
        KVSet KEY_DEVICE_DATA_REMOVED (JNum 1)]
   \<and> kv (snd (removeAllDeviceData (sample_world PERMISSION_GRANTED) built_instance))
        KEY_DEVICE_DATA_REMOVED = Some (JNum 1)"
  by (simp add: removeAllDeviceData_def getParams_def object_keys_def assign_null_def
      assign_def get_prop_def set_prop_def delete_prop_def spread_def
      monad_defs sample_defs)

text \<open>With a backend whose \<^verbatim>\<open>unregisterDevice\<close> is rejected, the aggregation of the two calls
  rejects, so \<^verbatim>\<open>removeAllDeviceData\<close> rejects with that error and the flag stays unset.\<close>

lemma removeAllDeviceData_rejected:
  "fst (removeAllDeviceData failing_unregister_world built_instance)
     = Inl (Error ''network error'')
   \<and> trace (snd (removeAllDeviceData failing_unregister_world built_instance)) =
       [Call GetTags, Call (PostEvent EVENT_GDPR_DELETE [(''status'', JBool True)]),
        Call (SetTags [(''A'', JNull), (''B'', JNull)]), Call UnregisterDevice]
   \<and> kv (snd (removeAllDeviceData failing_unregister_world built_instance))
        KEY_DEVICE_DATA_REMOVED = None"
  by (simp add: removeAllDeviceData_def getParams_def object_keys_def assign_null_def
      assign_def get_prop_def set_prop_def delete_prop_def spread_def
      monad_defs sample_defs)

section \<open>The private field of the configuration is never read\<close>

named_theorems frame

lemma ignores_ret [frame]: "ignores_initParams (ret v)"
  by (simp add: ignores_initParams_def ret_def)

lemma ignores_throw [frame]: "ignores_initParams (throw e)"
  by (simp add: ignores_initParams_def throw_def)

lemma ignores_gets:
  "(\<And>s x. f (s\<lparr>initParams := x\<rparr>) = f s) \<Longrightarrow> ignores_initParams (gets f)"
  by (simp add: ignores_initParams_def gets_def)

lemma ignores_modify:
  "(\<And>s x. f (s\<lparr>initParams := x\<rparr>) = (f s)\<lparr>initParams := x\<rparr>) \<Longrightarrow>
   ignores_initParams (modify f)"
  by (simp add: ignores_initParams_def modify_def)

lemma ignores_bind [frame]:
  "ignores_initParams m \<Longrightarrow> (\<And>v. ignores_initParams (k v)) \<Longrightarrow>
   ignores_initParams (bind m k)"
  by (simp add: ignores_initParams_def bind_def split: prod.splits sum.splits)

lemma ignores_try_catch [frame]:
  "ignores_initParams m \<Longrightarrow> (\<And>e. ignores_initParams (h e)) \<Longrightarrow>
   ignores_initParams (try_catch m h)"
  by (simp add: ignores_initParams_def try_catch_def split: prod.splits sum.splits)

lemma ignores_if [frame]:
  "(b \<Longrightarrow> ignores_initParams m) \<Longrightarrow> (\<not> b \<Longrightarrow> ignores_initParams n) \<Longrightarrow>
   ignores_initParams (if b then m else n)"
  by simp

lemma ignores_case_option [frame]:
  "(x = None \<Longrightarrow> ignores_initParams m) \<Longrightarrow> (\<And>v. x = Some v \<Longrightarrow> ignores_initParams (n v))
   \<Longrightarrow> ignores_initParams (case x of None \<Rightarrow> m | Some v \<Rightarrow> n v)"
  by (cases x) simp_all

lemma ignores_let [frame]: "ignores_initParams (f x) \<Longrightarrow> ignores_initParams (let y = x in f y)"
  by simp

lemma ignores_record_action [frame]: "ignores_initParams (record_action a)"
  unfolding record_action_def by (rule ignores_modify) simp

lemma ignores_logger [frame]: "ignores_initParams (logger msg)"
  unfolding logger_def by (rule ignores_record_action)

lemma ignores_start [frame]: "ignores_initParams (start w c)"
  by (simp add: ignores_initParams_def start_def)

lemma ignores_settle [frame]: "ignores_initParams (settle p)"
  by (cases p) (simp_all add: settle_def frame)

lemma ignores_invoke [frame]: "ignores_initParams (invoke w c)"
  unfolding invoke_def by (intro frame)

lemma ignores_on_driver [frame]: "ignores_initParams m \<Longrightarrow> ignores_initParams (on_driver m)"
  unfolding on_driver_def by (intro frame ignores_gets) simp

lemma ignores_on_api [frame]: "ignores_initParams m \<Longrightarrow> ignores_initParams (on_api m)"
  unfolding on_api_def by (intro frame ignores_gets) simp

lemma ignores_member [frame]: "ignores_initParams (member x k)"
  by (simp add: member_def frame split: option.splits json.splits)

lemma ignores_Promise_all [frame]: "ignores_initParams (Promise_all xs)"
  by (simp add: Promise_all_def frame split: option.splits)

lemma ignores_number_or_zero [frame]: "ignores_initParams (number_or_zero val)"
  by (simp add: number_or_zero_def frame split: option.splits number.splits)

lemma ignores_keyValue_get [frame]: "ignores_initParams (keyValue_get k)"
  unfolding keyValue_get_def by (rule ignores_gets) simp

lemma ignores_keyValue_getAll [frame]: "ignores_initParams keyValue_getAll"
  unfolding keyValue_getAll_def by (rule ignores_gets) simp

lemma ignores_keyValue_set [frame]: "ignores_initParams (keyValue_set k v)"
  unfolding keyValue_set_def by (rule ignores_modify) simp

lemma ignores_keyValue_extend [frame]: "ignores_initParams (keyValue_extend k v)"
  unfolding keyValue_extend_def by (intro frame)

lemma ignores_isCommunicationEnabled [frame]: "ignores_initParams isCommunicationEnabled"
  unfolding isCommunicationEnabled_def by (intro frame)

lemma ignores_getParams [frame]: "ignores_initParams getParams"
  unfolding getParams_def by (intro frame)

lemma ignores_stat_handler [frame]: "ignores_initParams (stat_handler w)"
  unfolding stat_handler_def by (intro frame ignores_gets) simp

lemma ignores_run_stat_handlers [frame]: "ignores_initParams (run_stat_handlers w n)"
  by (induction n) (simp_all add: frame)

lemma ignores_emit [frame]: "ignores_initParams (emit w name payload)"
  unfolding emit_def by (intro frame ignores_gets) simp

lemma ignores_initApi [frame]: "ignores_initParams (initApi w)"
  unfolding initApi_def by (intro frame ignores_gets ignores_modify) simp_all

lemma ignores_sendApplicationOpen [frame]:
  "ignores_initParams (sendApplicationOpen w force curTime lastSentTime)"
  unfolding sendApplicationOpen_def by (intro frame ignores_gets) simp

lemma ignores_callApplicationOpen [frame]: "ignores_initParams (callApplicationOpen w force)"
  unfolding callApplicationOpen_def by (intro frame ignores_gets) simp_all

lemma ignores_needForcedOpen [frame]: "ignores_initParams (needForcedOpen w)"
  unfolding needForcedOpen_def by (intro frame ignores_gets) simp_all

lemma ignores_installDevice [frame]: "ignores_initParams (installDevice w force)"
  unfolding installDevice_def by (intro frame ignores_gets) simp_all

lemma ignores_unsubscribe [frame]: "ignores_initParams (unsubscribe w notify)"
  unfolding unsubscribe_def by (intro frame)

lemma ignores_onSubscribeEmitter [frame]: "ignores_initParams (onSubscribeEmitter w)"
  unfolding onSubscribeEmitter_def by (intro frame)

lemma ignores_registerDuringSubscribe [frame]: "ignores_initParams (registerDuringSubscribe w)"
  unfolding registerDuringSubscribe_def by (intro frame ignores_gets) simp

lemma ignores_subscribe [frame]: "ignores_initParams (subscribe w)"
  unfolding subscribe_def by (intro frame ignores_gets) (simp add: isDeviceRegistered_def)

lemma ignores_removeRegistrationStatus [frame]: "ignores_initParams removeRegistrationStatus"
  unfolding removeRegistrationStatus_def by (rule ignores_modify) simp

lemma ignores_permission_denied_case [frame]: "ignores_initParams (permission_denied_case w)"
  unfolding permission_denied_case_def
  by (intro frame ignores_gets) (simp_all add: isDeviceRegistered_def)

lemma ignores_permission_prompt_case [frame]:
  "ignores_initParams (permission_prompt_case w autoSubscribe)"
  unfolding permission_prompt_case_def
  by (intro frame ignores_gets) (simp_all add: isDeviceRegistered_def)

lemma ignores_permission_granted_case [frame]: "ignores_initParams (permission_granted_case w)"
  unfolding permission_granted_case_def
  by (intro frame ignores_gets) (simp_all add: isDeviceRegistered_def isDeviceUnregistered_def)

lemma ignores_permission_switch [frame]:
  "ignores_initParams (permission_switch w autoSubscribe)"
  unfolding permission_switch_def by (intro frame ignores_gets) simp

lemma ignores_defaultProcess_begin [frame]: "ignores_initParams (defaultProcess_begin w)"
  unfolding defaultProcess_begin_def
  by (intro frame ignores_gets ignores_modify) (simp_all add: isDeviceRegistered_def)

lemma ignores_emit_delayed [frame]: "ignores_initParams (emit_delayed w d)"
  unfolding emit_delayed_def
  by (intro frame) (simp_all add: frame split: option.splits json.splits)

lemma ignores_defaultProcess_finish [frame]: "ignores_initParams (defaultProcess_finish w)"
  unfolding defaultProcess_finish_def
  by (intro frame ignores_gets ignores_modify) simp_all

lemma ignores_defaultProcess [frame]: "ignores_initParams (defaultProcess w)"
  unfolding defaultProcess_def
  by (intro frame ignores_gets) simp

lemma ignores_init_driver [frame]: "ignores_initParams (init_driver w p)"
  unfolding init_driver_def
  by (intro frame ignores_gets ignores_modify) simp_all


section \<open>Spreading and deleting properties\<close>

lemma spread_Nil [simp]: "spread a [] = a"
  by (simp add: spread_def)

lemma spread_Cons [simp]: "spread a ((k, v) # b) = spread (set_prop a k v) b"
  by (simp add: spread_def)

lemma get_prop_Nil [simp]: "get_prop [] k = None"
  by (simp add: get_prop_def)

lemma get_prop_Cons [simp]:
  "get_prop ((k', v) # ob) k = (if k = k' then Some v else get_prop ob k)"
  by (simp add: get_prop_def)



lemma distinct_set_prop: "distinct (map fst ob) \<Longrightarrow> distinct (map fst (set_prop ob k v))"
  by (simp add: set_prop_def distinct_update)

lemma distinct_spread: "distinct (map fst a) \<Longrightarrow> distinct (map fst (spread a b))"
  by (induction b arbitrary: a) (auto simp add: distinct_set_prop)



lemma delete_prop_Cons [simp]:
  "delete_prop ((k', v) # ob) k = (if k' = k then delete_prop ob k else (k', v) # delete_prop ob k)"
  by (simp add: delete_prop_def)

lemma delete_prop_Nil [simp]: "delete_prop [] k = []"
  by (simp add: delete_prop_def)




section \<open>What a successful step tells\<close>

lemma bind_InlE:
  assumes "bind m k s = (Inl e, s1)"
  obtains "m s = (Inl e, s1)" | v s' where "m s = (Inr v, s')" and "k v s' = (Inl e, s1)"
  using assms by (auto simp add: bind_def split: prod.splits sum.splits)

lemma gets_eq: "gets f s = (r, s') \<longleftrightarrow> r = Inr (f s) \<and> s' = s"
  by (auto simp add: gets_def)

lemma modify_eq: "modify f s = (r, s') \<longleftrightarrow> r = Inr () \<and> s' = f s"
  by (auto simp add: modify_def)

lemma ret_eq: "ret v s = (r, s') \<longleftrightarrow> r = Inr v \<and> s' = s"
  by (auto simp add: ret_def)

lemma throw_eq: "throw e s = (r, s') \<longleftrightarrow> r = Inl e \<and> s' = s"
  by (auto simp add: throw_def)

lemma keyValue_get_eq: "keyValue_get k s = (r, s') \<longleftrightarrow> r = Inr (kv s k) \<and> s' = s"
  by (simp add: keyValue_get_def gets_eq)

lemma keyValue_set_eq:
  "keyValue_set k v s = (r, s') \<longleftrightarrow>
     r = Inr () \<and> s' = s\<lparr>kv := (kv s)(k \<mapsto> v), trace := trace s @ [KVSet k v]\<rparr>"
  by (simp add: keyValue_set_def modify_eq)

lemma keyValue_extend_eq:
  "keyValue_extend k v s = (r, s') \<longleftrightarrow>
     r = Inr () \<and>
     s' = s\<lparr>kv := (kv s)(k \<mapsto> JObj (spread (spread [] (own_props (kv s k))) (own_props (Some v)))),
            trace := trace s @
              [KVSet k (JObj (spread (spread [] (own_props (kv s k))) (own_props (Some v))))]\<rparr>"
  by (simp add: keyValue_extend_def bind_def keyValue_get_def gets_def keyValue_set_eq)

lemma member_eq_Inr:
  "member x k s = (Inr v, s') \<longleftrightarrow>
     s' = s \<and> x \<noteq> None \<and> x \<noteq> Some JNull \<and> v = prop_of x k"
  by (auto simp add: member_def prop_of_def ret_def throw_def split: option.splits json.splits)

lemma on_driver_invoke_eq_Inr:
  "on_driver (invoke w c) s = (Inr v, s') \<longleftrightarrow>
     driver s \<noteq> None \<and> respond w (trace s) c = Inr v \<and>
     s' = s\<lparr>registrationStatus := status_after w (trace s) c (registrationStatus s),
            trace := trace s @ [Call c]\<rparr>"
  by (auto simp add: on_driver_def invoke_def settle_def start_def bind_def gets_def
      throw_def ret_def split: option.splits sum.splits)



lemma prop_of_JObj: "prop_of (Some (JObj p)) k = get_prop p k"
  by (simp add: prop_of_def)

lemma initApi_InrE:
  assumes "initApi w s = (Inr u, s')"
  obtains dp p where
    "driver s \<noteq> None" and "respond w (trace s) GetAPIParams = Inr dp" and "params s = Some p"
    and "s' = initApi_state w p dp s"
proof -
  from assms obtain p where p: "params s = Some p"
    unfolding initApi_def Let_def
    by (elim bind_InrE) (auto simp add: gets_eq keyValue_get_eq member_eq_Inr)
  from assms obtain dp where dp: "driver s \<noteq> None" "respond w (trace s) GetAPIParams = Inr dp"
    unfolding initApi_def Let_def
    by (elim bind_InrE) (auto simp add: gets_eq on_driver_invoke_eq_Inr)
  have "s' = initApi_state w p dp s"
    using assms p dp
    unfolding initApi_def Let_def
    apply (elim bind_InrE)
    apply (simp add: gets_eq keyValue_get_eq member_eq_Inr on_driver_invoke_eq_Inr modify_eq
        keyValue_extend_eq prop_of_JObj)
    apply (simp add: initApi_state_def initApi_apiParams_def Let_def)
    done
  with p dp show ?thesis
    by (auto intro: that)
qed

section \<open>The default user identifier (C10)\<close>








section \<open>The permission is denied at startup (C5)\<close>

lemma emit_other:
  "name \<noteq> EVENT_ON_READY \<Longrightarrow>
   emit w name payload s = (Inr (), s\<lparr>trace := trace s @ [Emit name payload]\<rparr>)"
  by (simp add: emit_def record_action_def bind_modify ret_def)

text \<open>\<^verbatim>\<open>unsubscribe\<close> with the driver and the API facade in place: the unsubscribe of the
  driver, then, when that succeeded, the de-registration at the backend, then the event
  when both succeeded and it was asked for; a failure is logged.\<close>

lemma unsubscribe_apply:
  assumes "driver s \<noteq> None" and "api s \<noteq> None"
  shows "unsubscribe w notify s =
    (Inr (),
     (case respond w (trace s) DriverUnsubscribe of
        Inl e \<Rightarrow>
          s\<lparr>registrationStatus :=
               status_after w (trace s) DriverUnsubscribe (registrationStatus s),
             trace := trace s @
               [Call DriverUnsubscribe, Log ''Error occurred during the unsubscribe'']\<rparr>
      | Inr _ \<Rightarrow>
          s\<lparr>registrationStatus :=
               status_after w (trace s @ [Call DriverUnsubscribe]) UnregisterDevice
                 (status_after w (trace s) DriverUnsubscribe (registrationStatus s)),
             trace := trace s @ [Call DriverUnsubscribe, Call UnregisterDevice] @
               (case respond w (trace s @ [Call DriverUnsubscribe]) UnregisterDevice of
                  Inl e \<Rightarrow> [Log ''Error occurred during the unsubscribe'']
                | Inr _ \<Rightarrow> if notify then [Emit EVENT_ON_UNSUBSCRIBE None] else [])\<rparr>))"
proof -
  have ne: "EVENT_ON_UNSUBSCRIBE \<noteq> EVENT_ON_READY"
    by (simp add: constant_defs)
  show ?thesis
    using assms
    by (simp add: unsubscribe_def try_catch_def bind_on_driver_ok bind_on_api_ok
        bind_invoke_ok bind_invoke_fail emit_other [OF ne] logger_apply ret_def
        split: sum.splits)
qed

lemma unsubscribe_trace:
  assumes "driver s \<noteq> None" and "api s \<noteq> None"
  shows "trace (snd (unsubscribe w notify s)) =
     trace s @
     (case respond w (trace s) DriverUnsubscribe of
        Inl e \<Rightarrow> [Call DriverUnsubscribe, Log ''Error occurred during the unsubscribe'']
      | Inr _ \<Rightarrow>
          [Call DriverUnsubscribe, Call UnregisterDevice] @
          (case respond w (trace s @ [Call DriverUnsubscribe]) UnregisterDevice of
             Inl e \<Rightarrow> [Log ''Error occurred during the unsubscribe'']
           | Inr _ \<Rightarrow> if notify then [Emit EVENT_ON_UNSUBSCRIBE None] else []))"
  by (cases "respond w (trace s) DriverUnsubscribe")
     (simp_all add: unsubscribe_apply [OF assms])

text \<open>A startup that reaches the check of the device-data-removed flag has a driver and
  an API facade there, and the permission the driver reported at the start.\<close>

lemma denied_inv_stable:
  "stable_inv w (\<lambda>s. driver s \<noteq> None \<and> api s \<noteq> None \<and> permissionOnInit s = p
                     \<and> isSafari s = b)"
  by (simp add: stable_inv_def)

lemma defaultProcess_begin_reaches_switch:
  assumes "defaultProcess_begin w s = (Inr d, s1)"
  shows "driver s1 \<noteq> None \<and> api s1 \<noteq> None \<and> isSafari s1 = isSafari s
       \<and> (\<exists>p. respond w (trace s) GetPermission = Inr p \<and> permissionOnInit s1 = Some p)"
proof -
  let ?rest = "bind (callApplicationOpen w False) (\<lambda>_.
     bind (if driver_has_isNeedUnsubscribe w
           then bind (on_driver (invoke w IsNeedUnsubscribe)) (\<lambda>needUnsubscribe.
                  if truthy (Some needUnsubscribe)
                  then bind (gets isDeviceRegistered) (\<lambda>deviceRegistered.
                         if deviceRegistered then unsubscribe w False else ret ())
                  else ret ())
           else ret ()) (\<lambda>_.
     bind (gets isNeedResubscribe) (\<lambda>needResubscribe.
     bind (if needResubscribe then unsubscribe w False else ret ()) (\<lambda>_.
     keyValue_get KEY_DEVICE_DATA_REMOVED))))"
  have "bind (on_driver (invoke w GetPermission)) (\<lambda>permission.
          bind (modify (\<lambda>s. s\<lparr>permissionOnInit := Some permission\<rparr>)) (\<lambda>_.
          bind (initApi w) (\<lambda>_. ?rest))) s = (Inr d, s1)"
    using assms unfolding defaultProcess_begin_def .
  then obtain p sa where perm: "on_driver (invoke w GetPermission) s = (Inr p, sa)"
    and r1: "bind (modify (\<lambda>s. s\<lparr>permissionOnInit := Some p\<rparr>)) (\<lambda>_.
          bind (initApi w) (\<lambda>_. ?rest)) sa = (Inr d, s1)"
    by (rule bind_InrE)
  from r1 obtain u1 sb where set: "modify (\<lambda>s. s\<lparr>permissionOnInit := Some p\<rparr>) sa = (Inr u1, sb)"
    and r2: "bind (initApi w) (\<lambda>_. ?rest) sb = (Inr d, s1)"
    by (rule bind_InrE)
  from r2 obtain u2 sc where api: "initApi w sb = (Inr u2, sc)"
    and rest: "?rest sc = (Inr d, s1)"
    by (rule bind_InrE)
  from perm have a: "driver s \<noteq> None" "respond w (trace s) GetPermission = Inr p"
      "sa = s\<lparr>registrationStatus := status_after w (trace s) GetPermission (registrationStatus s),
              trace := trace s @ [Call GetPermission]\<rparr>"
    by (simp_all add: on_driver_invoke_eq_Inr)
  from set have b: "sb = sa\<lparr>permissionOnInit := Some p\<rparr>"
    by (simp add: modify_eq)
  from api obtain dp pr where "sc = initApi_state w pr dp sb"
    by (rule initApi_InrE)
  with a b have c: "driver sc \<noteq> None \<and> api sc \<noteq> None \<and> permissionOnInit sc = Some p
      \<and> isSafari sc = isSafari s"
    by (simp add: initApi_state_def Let_def)
  have "preserves (\<lambda>s'. driver s' \<noteq> None \<and> api s' \<noteq> None \<and> permissionOnInit s' = Some p
      \<and> isSafari s' = isSafari s) ?rest"
    by (intro pres denied_inv_stable)
  from preservesD [where m = "?rest" and s = sc, OF this c rest]
  have inv: "driver s1 \<noteq> None \<and> api s1 \<noteq> None \<and> permissionOnInit s1 = Some p
      \<and> isSafari s1 = isSafari s" .
  with a(2) show ?thesis
    by blast
qed

text \<open>The branch of the switch for a denied permission, lines 665 to 673.\<close>

lemma permission_switch_denied:
  "permissionOnInit s = Some (JStr PERMISSION_DENIED) \<Longrightarrow>
   permission_switch w a s = permission_denied_case w s"
  by (simp add: permission_switch_def bind_gets)

lemma permission_denied_case_apply:
  assumes "driver s \<noteq> None" and "api s \<noteq> None"
  shows "permission_denied_case w s =
    (let s1 = s\<lparr>trace := trace s @ [Emit EVENT_ON_PERMISSION_DENIED None]\<rparr>;
         s2 = (if \<not> isSafari s \<and> isDeviceRegistered s then snd (unsubscribe w True s1) else s1)
     in (Inr (), s2\<lparr>registrationStatus := None,
                     trace := trace s2 @ [RemoveRegistrationStatus]\<rparr>))"
proof -
  have ne: "EVENT_ON_PERMISSION_DENIED \<noteq> EVENT_ON_READY"
    by (simp add: constant_defs)
  let ?s1 = "s\<lparr>trace := trace s @ [Emit EVENT_ON_PERMISSION_DENIED None]\<rparr>"
  obtain s2 where u: "unsubscribe w True ?s1 = (Inr (), s2)"
    using assms unsubscribe_apply [of ?s1 w True] by simp
  have b1: "\<And>k. bind (emit w EVENT_ON_PERMISSION_DENIED None) k s = k () ?s1"
    by (simp add: bind_def emit_other [OF ne])
  have b2: "\<And>k. bind (unsubscribe w True) k ?s1 = k () s2"
    by (simp add: bind_def u)
  have b3: "\<And>k. bind (ret ()) k ?s1 = k () ?s1"
    by (simp add: bind_def ret_def)
  have reg: "isDeviceRegistered ?s1 = isDeviceRegistered s"
    by (simp add: isDeviceRegistered_def)
  show ?thesis
    unfolding permission_denied_case_def
    by (cases "isSafari s"; cases "isDeviceRegistered s";
        simp add: b1 bind_gets reg b2 b3 u removeRegistrationStatus_def modify_def Let_def)
qed

lemma permission_denied_case_trace:
  assumes "driver s \<noteq> None" and "api s \<noteq> None"
  shows "fst (permission_denied_case w s) = Inr ()"
    and "registrationStatus (snd (permission_denied_case w s)) = None"
    and "trace (snd (permission_denied_case w s)) =
        trace s @ [Emit EVENT_ON_PERMISSION_DENIED None] @
        (if \<not> isSafari s \<and> isDeviceRegistered s
         then (case respond w (trace s @ [Emit EVENT_ON_PERMISSION_DENIED None])
                      DriverUnsubscribe of
                 Inl e \<Rightarrow> [Call DriverUnsubscribe, Log ''Error occurred during the unsubscribe'']
               | Inr _ \<Rightarrow>
                   [Call DriverUnsubscribe, Call UnregisterDevice] @
                   (case respond w (trace s @ [Emit EVENT_ON_PERMISSION_DENIED None,
                                                Call DriverUnsubscribe]) UnregisterDevice of
                      Inl e \<Rightarrow> [Log ''Error occurred during the unsubscribe'']
                    | Inr _ \<Rightarrow> [Emit EVENT_ON_UNSUBSCRIBE None]))
         else []) @
        [RemoveRegistrationStatus]"
proof -
  let ?s1 = "s\<lparr>trace := trace s @ [Emit EVENT_ON_PERMISSION_DENIED None]\<rparr>"
  have t: "trace (snd (unsubscribe w True ?s1)) =
     trace ?s1 @
     (case respond w (trace ?s1) DriverUnsubscribe of
        Inl e \<Rightarrow> [Call DriverUnsubscribe, Log ''Error occurred during the unsubscribe'']
      | Inr _ \<Rightarrow>
          [Call DriverUnsubscribe, Call UnregisterDevice] @
          (case respond w (trace ?s1 @ [Call DriverUnsubscribe]) UnregisterDevice of
             Inl e \<Rightarrow> [Log ''Error occurred during the unsubscribe'']
           | Inr _ \<Rightarrow> if True then [Emit EVENT_ON_UNSUBSCRIBE None] else []))"
    using assms by (intro unsubscribe_trace) simp_all
  show "fst (permission_denied_case w s) = Inr ()"
    and "registrationStatus (snd (permission_denied_case w s)) = None"
    by (simp_all add: permission_denied_case_apply [OF assms] Let_def)
  show "trace (snd (permission_denied_case w s)) =
        trace s @ [Emit EVENT_ON_PERMISSION_DENIED None] @
        (if \<not> isSafari s \<and> isDeviceRegistered s
         then (case respond w (trace s @ [Emit EVENT_ON_PERMISSION_DENIED None])
                      DriverUnsubscribe of
                 Inl e \<Rightarrow> [Call DriverUnsubscribe, Log ''Error occurred during the unsubscribe'']
               | Inr _ \<Rightarrow>
                   [Call DriverUnsubscribe, Call UnregisterDevice] @
                   (case respond w (trace s @ [Emit EVENT_ON_PERMISSION_DENIED None,
                                                Call DriverUnsubscribe]) UnregisterDevice of
                      Inl e \<Rightarrow> [Log ''Error occurred during the unsubscribe'']
                    | Inr _ \<Rightarrow> [Emit EVENT_ON_UNSUBSCRIBE None]))
         else []) @
        [RemoveRegistrationStatus]"
    by (cases "respond w (trace s @ [Emit EVENT_ON_PERMISSION_DENIED None]) DriverUnsubscribe")
       (simp_all add: permission_denied_case_apply [OF assms] Let_def t)
qed

text \<open>The definitions that a run of the whole of \<^verbatim>\<open>defaultProcess\<close> unfolds, besides those of
  its first part.\<close>

lemmas run_defs = defaultProcess_def defaultProcess_finish_def permission_switch_def
  permission_denied_case_def isDeviceRegistered_def removeRegistrationStatus_def
  installDevice_def needForcedOpen_def compare_permission_def

text \<open>
  C5, as the claim states it, fails in two ways. On Safari the branch for a denied
  permission never unsubscribes: with the device marked registered when the switch is
  reached, the whole startup issues neither the unsubscribe of the driver nor the
  de-registration at the backend. And a startup that finds the device-data-removed flag
  set stops before the switch: it emits no permission-denied event and leaves the
  registration status in place.
\<close>

theorem permission_denied_counterexample:
  "respond (sample_world PERMISSION_DENIED) (trace (registered_instance True)) GetPermission
     = Inr (JStr PERMISSION_DENIED)
   \<and> isDeviceRegistered
        (snd (defaultProcess_begin (sample_world PERMISSION_DENIED) (registered_instance True)))
   \<and> fst (defaultProcess (sample_world PERMISSION_DENIED) (registered_instance True)) = Inr ()
   \<and> filter (\<lambda>a. case a of KVSet k v \<Rightarrow> False | _ \<Rightarrow> True)
        (trace (snd (defaultProcess (sample_world PERMISSION_DENIED) (registered_instance True))))
      = [Call GetPermission, Call GetAPIParams, Call GetAPIParams, Call ApplicationOpen,
         Emit EVENT_ON_PERMISSION_DENIED None, RemoveRegistrationStatus,
         Call GetAPIParams, Call RegisterDevice,
         Call (SetTags [(''Language'', JStr ''en''), (''A'', JStr ''x''), (''B'', JStr ''y''),
                        (''Device Model'', JStr ''Chrome 70'')]),
         Call RegisterUser, Emit EVENT_ON_REGISTER None, Call GetPermission,
         Emit EVENT_ON_READY None]
   \<and> respond (sample_world PERMISSION_DENIED)
        (trace ((registered_instance False)
                  \<lparr>kv := (\<lambda>k. None)(KEY_DEVICE_DATA_REMOVED \<mapsto> JNum 1)\<rparr>)) GetPermission
     = Inr (JStr PERMISSION_DENIED)
   \<and> fst (defaultProcess (sample_world PERMISSION_DENIED)
        ((registered_instance False)
           \<lparr>kv := (\<lambda>k. None)(KEY_DEVICE_DATA_REMOVED \<mapsto> JNum 1)\<rparr>)) = Inr ()
   \<and> filter (\<lambda>a. case a of KVSet k v \<Rightarrow> False | _ \<Rightarrow> True)
        (trace (snd (defaultProcess (sample_world PERMISSION_DENIED)
          ((registered_instance False)
             \<lparr>kv := (\<lambda>k. None)(KEY_DEVICE_DATA_REMOVED \<mapsto> JNum 1)\<rparr>))))
      = [Call GetPermission, Call GetAPIParams, Call GetAPIParams, Call ApplicationOpen,
         Log ''Device data has been removed'']
   \<and> registrationStatus (snd (defaultProcess (sample_world PERMISSION_DENIED)
          ((registered_instance False)
             \<lparr>kv := (\<lambda>k. None)(KEY_DEVICE_DATA_REMOVED \<mapsto> JNum 1)\<rparr>)))
      = Some DEVICE_REGISTRATION_STATUS_REGISTERED"
proof -
  have live: "\<And>t. respond (sample_world PERMISSION_DENIED) t GetPermission
      = Inr (JStr PERMISSION_DENIED)"
    by (simp add: sample_defs)
  have reg: "isDeviceRegistered
      (snd (defaultProcess_begin (sample_world PERMISSION_DENIED) (registered_instance True)))"
    by (simp add: isDeviceRegistered_def registered_instance_def eval_defs sample_defs
        monad_defs constant_defs cong: prod.case_cong_weak)
  have safari: "\<exists>st.
      defaultProcess (sample_world PERMISSION_DENIED) (registered_instance True) = (Inr (), st)
    \<and> filter (\<lambda>a. case a of KVSet k v \<Rightarrow> False | _ \<Rightarrow> True) (trace st)
      = [Call GetPermission, Call GetAPIParams, Call GetAPIParams, Call ApplicationOpen,
         Emit EVENT_ON_PERMISSION_DENIED None, RemoveRegistrationStatus,
         Call GetAPIParams, Call RegisterDevice,
         Call (SetTags [(''Language'', JStr ''en''), (''A'', JStr ''x''), (''B'', JStr ''y''),
                        (''Device Model'', JStr ''Chrome 70'')]),
         Call RegisterUser, Emit EVENT_ON_REGISTER None, Call GetPermission,
         Emit EVENT_ON_READY None]"
    by (simp add: registered_instance_def run_defs eval_defs sample_defs monad_defs
        constant_defs cong: prod.case_cong_weak)
  have removed: "\<exists>st.
      defaultProcess (sample_world PERMISSION_DENIED)
        ((registered_instance False)
           \<lparr>kv := (\<lambda>k. None)(KEY_DEVICE_DATA_REMOVED \<mapsto> JNum 1)\<rparr>) = (Inr (), st)
    \<and> filter (\<lambda>a. case a of KVSet k v \<Rightarrow> False | _ \<Rightarrow> True) (trace st)
      = [Call GetPermission, Call GetAPIParams, Call GetAPIParams, Call ApplicationOpen,
         Log ''Device data has been removed'']
    \<and> registrationStatus st = Some DEVICE_REGISTRATION_STATUS_REGISTERED"
    by (simp add: registered_instance_def run_defs eval_defs sample_defs monad_defs
        constant_defs cong: prod.case_cong_weak)
  from safari obtain st where
    "defaultProcess (sample_world PERMISSION_DENIED) (registered_instance True) = (Inr (), st)"
    "filter (\<lambda>a. case a of KVSet k v \<Rightarrow> False | _ \<Rightarrow> True) (trace st)
      = [Call GetPermission, Call GetAPIParams, Call GetAPIParams, Call ApplicationOpen,
         Emit EVENT_ON_PERMISSION_DENIED None, RemoveRegistrationStatus,
         Call GetAPIParams, Call RegisterDevice,
         Call (SetTags [(''Language'', JStr ''en''), (''A'', JStr ''x''), (''B'', JStr ''y''),
                        (''Device Model'', JStr ''Chrome 70'')]),
         Call RegisterUser, Emit EVENT_ON_REGISTER None, Call GetPermission,
         Emit EVENT_ON_READY None]"
    by (elim exE conjE)
  moreover from removed obtain st' where
    "defaultProcess (sample_world PERMISSION_DENIED)
        ((registered_instance False)
           \<lparr>kv := (\<lambda>k. None)(KEY_DEVICE_DATA_REMOVED \<mapsto> JNum 1)\<rparr>) = (Inr (), st')"
    "filter (\<lambda>a. case a of KVSet k v \<Rightarrow> False | _ \<Rightarrow> True) (trace st')
      = [Call GetPermission, Call GetAPIParams, Call GetAPIParams, Call ApplicationOpen,
         Log ''Device data has been removed'']"
    "registrationStatus st' = Some DEVICE_REGISTRATION_STATUS_REGISTERED"
    by (elim exE conjE)
  ultimately show ?thesis
    using live reg by simp
qed

text \<open>
  C5, amended. Take a startup in which the driver reports the permission denied and
  which reaches the switch on the permission: no step before it failed and the
  device-data-removed flag is not set. Then the branch returns normally, emits the
  permission-denied event and ends with the removal of the registration status, which is
  absent afterwards. In between, when the browser is not Safari and the device is marked
  registered at that point, \<^verbatim>\<open>unsubscribe\<close> runs once: the unsubscribe of the driver, then,
  if that succeeded, the de-registration at the backend, then the unsubscribe event if
  both succeeded and a log entry if one failed. On Safari, or when the device is not
  marked registered, nothing happens in between. The startup then goes on with the
  second \<^verbatim>\<open>initApi\<close> and what follows it.
\<close>

theorem permission_denied_startup:
  assumes live: "respond w (trace s) GetPermission = Inr (JStr PERMISSION_DENIED)"
    and reached: "defaultProcess_begin w s = (Inr d, s1)"
    and no_tombstone: "\<not> truthy d"
  shows "fst (permission_switch w a s1) = Inr ()
    \<and> registrationStatus (snd (permission_switch w a s1)) = None
    \<and> trace (snd (permission_switch w a s1)) =
        trace s1 @ [Emit EVENT_ON_PERMISSION_DENIED None] @
        (if \<not> isSafari s1 \<and> isDeviceRegistered s1
         then (case respond w (trace s1 @ [Emit EVENT_ON_PERMISSION_DENIED None])
                      DriverUnsubscribe of
                 Inl e \<Rightarrow> [Call DriverUnsubscribe, Log ''Error occurred during the unsubscribe'']
               | Inr _ \<Rightarrow>
                   [Call DriverUnsubscribe, Call UnregisterDevice] @
                   (case respond w (trace s1 @ [Emit EVENT_ON_PERMISSION_DENIED None,
                                                 Call DriverUnsubscribe]) UnregisterDevice of
                      Inl e \<Rightarrow> [Log ''Error occurred during the unsubscribe'']
                    | Inr _ \<Rightarrow> [Emit EVENT_ON_UNSUBSCRIBE None]))
         else []) @
        [RemoveRegistrationStatus]
    \<and> defaultProcess w s = defaultProcess_finish w (snd (permission_switch w a s1))"
proof -
  from defaultProcess_begin_reaches_switch [OF reached] live
  have drv: "driver s1 \<noteq> None" and facade: "api s1 \<noteq> None"
    and perm: "permissionOnInit s1 = Some (JStr PERMISSION_DENIED)"
    by auto
  note sw = permission_switch_denied [OF perm, of w]
  note tr = permission_denied_case_trace [OF drv facade, of w]
  obtain s2 where run: "permission_denied_case w s1 = (Inr (), s2)"
    using tr(1) by (cases "permission_denied_case w s1") simp
  have "defaultProcess w s = defaultProcess_finish w s2"
    using reached no_tombstone
    by (simp add: defaultProcess_apply sw bind_def run)
  with run tr show ?thesis
    by (simp add: sw)
qed

theorem permission_denied_startup_witness:
  "respond (sample_world PERMISSION_DENIED) (trace (registered_instance False)) GetPermission
     = Inr (JStr PERMISSION_DENIED)
   \<and> fst (defaultProcess_begin (sample_world PERMISSION_DENIED) (registered_instance False))
     = Inr None
   \<and> \<not> truthy None
   \<and> isDeviceRegistered
        (snd (defaultProcess_begin (sample_world PERMISSION_DENIED) (registered_instance False)))
   \<and> fst (permission_switch (sample_world PERMISSION_DENIED) (JBool True)
        (snd (defaultProcess_begin (sample_world PERMISSION_DENIED) (registered_instance False))))
     = Inr ()
   \<and> registrationStatus (snd (permission_switch (sample_world PERMISSION_DENIED) (JBool True)
        (snd (defaultProcess_begin (sample_world PERMISSION_DENIED) (registered_instance False)))))
     = None
   \<and> trace (snd (permission_switch (sample_world PERMISSION_DENIED) (JBool True)
        (snd (defaultProcess_begin (sample_world PERMISSION_DENIED) (registered_instance False)))))
     = trace (snd (defaultProcess_begin (sample_world PERMISSION_DENIED)
                     (registered_instance False))) @
       [Emit EVENT_ON_PERMISSION_DENIED None, Call DriverUnsubscribe, Call UnregisterDevice,
        Emit EVENT_ON_UNSUBSCRIBE None, RemoveRegistrationStatus]"
proof -
  have live: "\<And>t. respond (sample_world PERMISSION_DENIED) t GetPermission
      = Inr (JStr PERMISSION_DENIED)"
    by (simp add: sample_defs)
  have ok: "\<And>t. respond (sample_world PERMISSION_DENIED) t DriverUnsubscribe = Inr JNull"
       "\<And>t. respond (sample_world PERMISSION_DENIED) t UnregisterDevice = Inr JNull"
    by (simp_all add: sample_defs)
  have "\<exists>st.
      defaultProcess_begin (sample_world PERMISSION_DENIED) (registered_instance False)
        = (Inr None, st)
    \<and> isDeviceRegistered st \<and> \<not> isSafari st"
    by (simp add: isDeviceRegistered_def registered_instance_def eval_defs sample_defs
        monad_defs constant_defs cong: prod.case_cong_weak)
  then obtain st where
      reached: "defaultProcess_begin (sample_world PERMISSION_DENIED) (registered_instance False)
        = (Inr None, st)"
    and st: "isDeviceRegistered st" "\<not> isSafari st"
    by (elim exE conjE)
  show ?thesis
    using permission_denied_startup [OF live reached, of "JBool True"] st
    by (simp add: reached live ok)
qed

section \<open>The serialisation determines the value\<close>



























section \<open>The flag for the tags (C4)\<close>






end
